theory Spec2Isabelle
  imports Complex_Main "HOL-Library.Sublist" "HOL-Library.Multiset"
begin

section \<open>Python values and built-in operations\<close>

text \<open>
  Python floats are modelled as real numbers: rounding, overflow and the special values
  inf and nan have no counterpart here. Strings are ASCII strings. An exception is a
  value of type \<open>error\<close>; a computation that may raise returns \<open>error + 'a\<close>. Output
  written with \<open>print\<close> is not modelled.
\<close>

datatype error =
    ValidationError
  | ValueError string
  | TypeError
  | ZeroDivisionError
  | AttributeError
  | HTTPException nat string

subsection \<open>Strings\<close>

definition isspace :: "char \<Rightarrow> bool" where
  "isspace c = (of_char c \<in> {9, 10, 11, 12, 13, 28, 29, 30, 31, 32 :: nat})"

definition isdigit :: "char \<Rightarrow> bool" where
  "isdigit c = (48 \<le> (of_char c :: nat) \<and> (of_char c :: nat) \<le> 57)"

definition digit_value :: "char \<Rightarrow> nat" where
  "digit_value c = of_char c - 48"

definition py_strip :: "string \<Rightarrow> string" where
  "py_strip s = rev (dropWhile isspace (rev (dropWhile isspace s)))"

definition py_startswith :: "string \<Rightarrow> string \<Rightarrow> bool" where
  "py_startswith s p = prefix p s"

text \<open>
  \<open>partition_at sep s\<close> cuts \<open>s\<close> at the first occurrence of \<open>sep\<close>, scanning from the
  left: the text before it and the text after it.
\<close>

fun partition_at :: "string \<Rightarrow> string \<Rightarrow> (string \<times> string) option" where
  "partition_at sep [] = (if sep = [] then Some ([], []) else None)"
| "partition_at sep (c # cs) =
     (if prefix sep (c # cs) then Some ([], drop (length sep) (c # cs))
      else (case partition_at sep cs of
              None \<Rightarrow> None
            | Some (before, after) \<Rightarrow> Some (c # before, after)))"

text \<open>\<open>sub in s\<close> on strings.\<close>

definition py_contains :: "string \<Rightarrow> string \<Rightarrow> bool" where
  "py_contains sub s = (partition_at sub s \<noteq> None)"

lemma partition_at_length:
  "partition_at sep s = Some (b, a) \<Longrightarrow> length b + length sep + length a = length s"
proof (induction s arbitrary: b)
  case Nil
  then show ?case by (simp split: if_splits)
next
  case (Cons c cs)
  show ?case
  proof (cases "prefix sep (c # cs)")
    case True
    with Cons.prems have "b = []" "a = drop (length sep) (c # cs)" by simp_all
    moreover from True have "length sep \<le> length (c # cs)" by (rule prefix_length_le)
    ultimately show ?thesis by simp
  next
    case False
    with Cons.prems obtain b' where "partition_at sep cs = Some (b', a)" "b = c # b'"
      by (auto split: option.splits)
    with Cons.IH [of b'] show ?thesis by simp
  qed
qed

text \<open>
  \<open>s.split(sep)\<close> for a non-empty separator (with an empty one Python raises; the code
  only passes the literals \<open>" * "\<close>, \<open>" / "\<close>, \<open>" + "\<close>, \<open>" - "\<close> and \<open>"."\<close>).
\<close>

function py_split :: "string \<Rightarrow> string \<Rightarrow> string list" where
  "py_split sep s =
     (if sep = [] then [s]
      else (case partition_at sep s of
              None \<Rightarrow> [s]
            | Some (before, after) \<Rightarrow> before # py_split sep after))"
  by pat_completeness auto
termination
proof (relation "measure (\<lambda>(sep, s). length s)")
  show "wf (measure (\<lambda>(sep, s). length s))" by simp
next
  fix sep s :: string and x2 x y
  assume "sep \<noteq> []" "partition_at sep s = Some x2" "(x, y) = x2"
  then have "partition_at sep s = Some (x, y)" by simp
  from partition_at_length [OF this] \<open>sep \<noteq> []\<close>
  show "((sep, y), (sep, s)) \<in> measure (\<lambda>(sep, s). length s)"
    by (cases sep) simp_all
qed

declare py_split.simps [simp del]

lemma py_split_not_Nil: "py_split sep s \<noteq> []"
  by (subst py_split.simps) (simp split: option.splits)

lemma py_split_None: "partition_at sep s = None \<Longrightarrow> py_split sep s = [s]"
  by (subst py_split.simps) simp

lemma py_split_Some:
  "sep \<noteq> [] \<Longrightarrow> partition_at sep s = Some (b, a) \<Longrightarrow> py_split sep s = b # py_split sep a"
  by (subst py_split.simps) simp

text \<open>\<open>s.count(sub)\<close> for a non-empty \<open>sub\<close>: the occurrences that \<open>split\<close> cuts at, counted
  from the left without overlap.\<close>

definition py_count :: "string \<Rightarrow> string \<Rightarrow> nat" where
  "py_count sub s = length (py_split sub s) - 1"

subsection \<open>Parsing numbers: int() and float()\<close>

text \<open>
  A digit part is a digit followed by digits, each optionally preceded by one
  underscore. \<open>scan_digits\<close> reads the longest digit part after its first digit and
  returns its value, the number of its digits and the rest of the input.
\<close>

fun scan_digits :: "nat \<Rightarrow> nat \<Rightarrow> string \<Rightarrow> nat \<times> nat \<times> string" where
  "scan_digits acc n [] = (acc, n, [])"
| "scan_digits acc n (c # cs) =
     (if isdigit c then scan_digits (10 * acc + digit_value c) (Suc n) cs
      else if c = CHR ''_'' \<and> (case cs of [] \<Rightarrow> False | d # ds \<Rightarrow> isdigit d)
        then scan_digits acc n cs
      else (acc, n, c # cs))"

definition digitpart :: "string \<Rightarrow> (nat \<times> nat \<times> string) option" where
  "digitpart s =
     (case s of
        [] \<Rightarrow> None
      | c # cs \<Rightarrow> if isdigit c then Some (scan_digits (digit_value c) 1 cs) else None)"

definition sign_prefix :: "string \<Rightarrow> bool \<times> string" where
  "sign_prefix s =
     (case s of
        [] \<Rightarrow> (False, s)
      | c # cs \<Rightarrow> if c = CHR ''-'' then (True, cs) else if c = CHR ''+'' then (False, cs)
                 else (False, s))"

text \<open>
  \<open>int\<close> and \<open>float\<close> skip white space around the number themselves. On an ASCII
  string they skip the characters that C's \<open>isspace\<close> knows; the separators 0x1C to 0x1F,
  which \<open>str.strip\<close> removes, are not among them.
\<close>

definition c_isspace :: "char \<Rightarrow> bool" where
  "c_isspace c = (of_char c \<in> {9, 10, 11, 12, 13, 32 :: nat})"

definition number_strip :: "string \<Rightarrow> string" where
  "number_strip s = rev (dropWhile c_isspace (rev (dropWhile c_isspace s)))"

text \<open>\<open>int(s)\<close> in base 10; \<open>None\<close> is the ValueError.\<close>

definition py_int :: "string \<Rightarrow> int option" where
  "py_int s =
     (let (negative, body) = sign_prefix (number_strip s) in
      case digitpart body of
        Some (v, n, []) \<Rightarrow> Some (if negative then - int v else int v)
      | _ \<Rightarrow> None)"

text \<open>
  \<open>float(s)\<close> on a decimal literal: an optional sign, a mantissa with digits before or
  after the point, an optional exponent. The value is the exact decimal number. The
  spellings of infinity and nan are not numbers of the model and are answered \<open>None\<close>,
  the ValueError.
\<close>

definition float_exponent :: "real \<Rightarrow> string \<Rightarrow> real option" where
  "float_exponent m s =
     (case s of
        [] \<Rightarrow> Some m
      | c # cs \<Rightarrow>
          if c = CHR ''e'' \<or> c = CHR ''E'' then
            (let (negative, body) = sign_prefix cs in
             case digitpart body of
               Some (e, n, []) \<Rightarrow> Some (if negative then m / 10 ^ e else m * 10 ^ e)
             | _ \<Rightarrow> None)
          else None)"

definition float_number :: "string \<Rightarrow> real option" where
  "float_number s =
     (case digitpart s of
        Some (ip, n, rest) \<Rightarrow>
          (case rest of
             c # cs \<Rightarrow>
               if c = CHR ''.'' then
                 (case digitpart cs of
                    Some (fp, k, rest') \<Rightarrow> float_exponent (real ip + real fp / 10 ^ k) rest'
                  | None \<Rightarrow> float_exponent (real ip) cs)
               else float_exponent (real ip) rest
           | [] \<Rightarrow> Some (real ip))
      | None \<Rightarrow>
          (case s of
             c # cs \<Rightarrow>
               if c = CHR ''.'' then
                 (case digitpart cs of
                    Some (fp, k, rest') \<Rightarrow> float_exponent (real fp / 10 ^ k) rest'
                  | None \<Rightarrow> None)
               else None
           | [] \<Rightarrow> None))"

definition py_float :: "string \<Rightarrow> real option" where
  "py_float s =
     (let (negative, body) = sign_prefix (number_strip s) in
      case float_number body of
        Some x \<Rightarrow> Some (if negative then - x else x)
      | None \<Rightarrow> None)"

text \<open>The characters a decimal literal is made of.\<close>

definition number_char :: "char \<Rightarrow> bool" where
  "number_char c =
     (isdigit c \<or> c = CHR ''+'' \<or> c = CHR ''-'' \<or> c = CHR ''.'' \<or> c = CHR ''e''
      \<or> c = CHR ''E'' \<or> c = CHR ''_'')"

subsection \<open>Values\<close>

text \<open>
  The values that fields, comparison values and expressions take: None, booleans,
  integers, floats and strings, and lists, sets and dicts of these. A set is the list of
  its elements; a str-valued enum member (\<open>GateType\<close>, \<open>QPUProvider\<close>) is its string.
\<close>

datatype atom = ANone | ABool bool | AInt int | AFloat real | AStr string

datatype pyval = Atom atom | VList "atom list" | VSet "atom list" | VDict "(atom \<times> atom) list"

abbreviation VNone :: pyval where "VNone \<equiv> Atom ANone"
abbreviation VBool :: "bool \<Rightarrow> pyval" where "VBool b \<equiv> Atom (ABool b)"
abbreviation VInt :: "int \<Rightarrow> pyval" where "VInt i \<equiv> Atom (AInt i)"
abbreviation VFloat :: "real \<Rightarrow> pyval" where "VFloat x \<equiv> Atom (AFloat x)"
abbreviation VStr :: "string \<Rightarrow> pyval" where "VStr s \<equiv> Atom (AStr s)"

text \<open>Booleans are integers; integers and floats compare and combine as numbers.\<close>

fun int_of :: "atom \<Rightarrow> int option" where
  "int_of (ABool b) = Some (if b then 1 else 0)"
| "int_of (AInt i) = Some i"
| "int_of _ = None"

fun num_of :: "atom \<Rightarrow> real option" where
  "num_of (AFloat x) = Some x"
| "num_of a = map_option real_of_int (int_of a)"

text \<open>\<open>a == b\<close>\<close>

definition atom_eq :: "atom \<Rightarrow> atom \<Rightarrow> bool" where
  "atom_eq a b =
     (case (num_of a, num_of b) of
        (Some x, Some y) \<Rightarrow> x = y
      | (None, None) \<Rightarrow> a = b
      | _ \<Rightarrow> False)"

definition atom_in :: "atom \<Rightarrow> atom list \<Rightarrow> bool" where
  "atom_in a xs = list_ex (atom_eq a) xs"

definition subset_atoms :: "atom list \<Rightarrow> atom list \<Rightarrow> bool" where
  "subset_atoms xs ys = list_all (\<lambda>x. atom_in x ys) xs"

fun dict_get :: "(atom \<times> atom) list \<Rightarrow> atom \<Rightarrow> atom option" where
  "dict_get [] k = None"
| "dict_get ((k', v) # kvs) k = (if atom_eq k k' then Some v else dict_get kvs k)"

fun py_eq :: "pyval \<Rightarrow> pyval \<Rightarrow> bool" where
  "py_eq (Atom a) (Atom b) = atom_eq a b"
| "py_eq (VList xs) (VList ys) = list_all2 atom_eq xs ys"
| "py_eq (VSet xs) (VSet ys) = (subset_atoms xs ys \<and> subset_atoms ys xs)"
| "py_eq (VDict xs) (VDict ys) =
     (list_all (\<lambda>(k, v). case dict_get ys k of Some v' \<Rightarrow> atom_eq v v' | None \<Rightarrow> False) xs
      \<and> list_all (\<lambda>(k, v). dict_get xs k \<noteq> None) ys)"
| "py_eq _ _ = False"

text \<open>The ordering comparisons \<open><\<close>, \<open><=\<close>, \<open>>\<close>, \<open>>=\<close>; incomparable types raise TypeError.\<close>

datatype cmp_op = Less | LessEq | Greater | GreaterEq

fun real_cmp :: "cmp_op \<Rightarrow> real \<Rightarrow> real \<Rightarrow> bool" where
  "real_cmp Less x y = (x < y)"
| "real_cmp LessEq x y = (x \<le> y)"
| "real_cmp Greater x y = (x > y)"
| "real_cmp GreaterEq x y = (x \<ge> y)"

fun str_lt :: "string \<Rightarrow> string \<Rightarrow> bool" where
  "str_lt [] [] = False"
| "str_lt [] (y # ys) = True"
| "str_lt (x # xs) [] = False"
| "str_lt (x # xs) (y # ys) =
     ((of_char x :: nat) < of_char y \<or> (x = y \<and> str_lt xs ys))"

fun str_cmp :: "cmp_op \<Rightarrow> string \<Rightarrow> string \<Rightarrow> bool" where
  "str_cmp Less s t = str_lt s t"
| "str_cmp LessEq s t = (\<not> str_lt t s)"
| "str_cmp Greater s t = str_lt t s"
| "str_cmp GreaterEq s t = (\<not> str_lt s t)"

definition atom_cmp :: "cmp_op \<Rightarrow> atom \<Rightarrow> atom \<Rightarrow> error + bool" where
  "atom_cmp ord a b =
     (case (num_of a, num_of b) of
        (Some x, Some y) \<Rightarrow> Inr (real_cmp ord x y)
      | _ \<Rightarrow> (case (a, b) of
                (AStr s, AStr t) \<Rightarrow> Inr (str_cmp ord s t)
              | _ \<Rightarrow> Inl TypeError))"

text \<open>Lists compare at their first pair of unequal elements, then by length.\<close>

fun list_cmp :: "cmp_op \<Rightarrow> atom list \<Rightarrow> atom list \<Rightarrow> error + bool" where
  "list_cmp ord [] [] = Inr (ord = LessEq \<or> ord = GreaterEq)"
| "list_cmp ord [] (y # ys) = Inr (ord = Less \<or> ord = LessEq)"
| "list_cmp ord (x # xs) [] = Inr (ord = Greater \<or> ord = GreaterEq)"
| "list_cmp ord (x # xs) (y # ys) =
     (if atom_eq x y then list_cmp ord xs ys else atom_cmp ord x y)"

fun set_cmp :: "cmp_op \<Rightarrow> atom list \<Rightarrow> atom list \<Rightarrow> bool" where
  "set_cmp LessEq xs ys = subset_atoms xs ys"
| "set_cmp Less xs ys = (subset_atoms xs ys \<and> \<not> subset_atoms ys xs)"
| "set_cmp GreaterEq xs ys = subset_atoms ys xs"
| "set_cmp Greater xs ys = (subset_atoms ys xs \<and> \<not> subset_atoms xs ys)"

fun py_cmp :: "cmp_op \<Rightarrow> pyval \<Rightarrow> pyval \<Rightarrow> error + bool" where
  "py_cmp ord (Atom a) (Atom b) = atom_cmp ord a b"
| "py_cmp ord (VList xs) (VList ys) = list_cmp ord xs ys"
| "py_cmp ord (VSet xs) (VSet ys) = Inr (set_cmp ord xs ys)"
| "py_cmp ord _ _ = Inl TypeError"

text \<open>
  \<open>x in container\<close>. Lists and dicts are unhashable, so looking one up in a set or a dict
  raises TypeError; a set looked up in a set is retried as a frozenset and is not found.
\<close>

fun py_in :: "pyval \<Rightarrow> pyval \<Rightarrow> error + bool" where
  "py_in (Atom a) (VList ys) = Inr (atom_in a ys)"
| "py_in _ (VList ys) = Inr False"
| "py_in (Atom a) (VSet ys) = Inr (atom_in a ys)"
| "py_in (VSet xs) (VSet ys) = Inr False"
| "py_in _ (VSet ys) = Inl TypeError"
| "py_in (Atom a) (VDict kvs) = Inr (atom_in a (map fst kvs))"
| "py_in _ (VDict kvs) = Inl TypeError"
| "py_in (Atom (AStr s)) (Atom (AStr t)) = Inr (py_contains s t)"
| "py_in _ (Atom b) = Inl TypeError"

text \<open>Iterating over a value: the items of a list or a set, the keys of a dict, the
  characters of a string; anything else raises TypeError.\<close>

fun py_iter :: "pyval \<Rightarrow> error + atom list" where
  "py_iter (VList xs) = Inr xs"
| "py_iter (VSet xs) = Inr xs"
| "py_iter (VDict kvs) = Inr (map fst kvs)"
| "py_iter (Atom (AStr s)) = Inr (map (\<lambda>c. AStr [c]) s)"
| "py_iter (Atom a) = Inl TypeError"

text \<open>\<open>all(item in container for item in items)\<close> stops at the first item not found.\<close>

fun all_in :: "atom list \<Rightarrow> pyval \<Rightarrow> error + bool" where
  "all_in [] container = Inr True"
| "all_in (item # items) container =
     (case py_in (Atom item) container of
        Inl e \<Rightarrow> Inl e
      | Inr found \<Rightarrow> if found then all_in items container else Inr False)"

text \<open>The arithmetic operators \<open>*\<close>, \<open>/\<close>, \<open>+\<close>, \<open>-\<close> of the expression evaluator.\<close>

datatype arith_op = Mul | Div | Add | Sub

definition repeat :: "int \<Rightarrow> 'a list \<Rightarrow> 'a list" where
  "repeat n xs = concat (replicate (nat n) xs)"

definition num_arith ::
    "(int \<Rightarrow> int \<Rightarrow> int) \<Rightarrow> (real \<Rightarrow> real \<Rightarrow> real) \<Rightarrow> atom \<Rightarrow> atom \<Rightarrow> pyval option" where
  "num_arith fi fr a b =
     (case (int_of a, int_of b) of
        (Some i, Some j) \<Rightarrow> Some (VInt (fi i j))
      | _ \<Rightarrow> (case (num_of a, num_of b) of
                (Some x, Some y) \<Rightarrow> Some (VFloat (fr x y))
              | _ \<Rightarrow> None))"

fun arith :: "arith_op \<Rightarrow> pyval \<Rightarrow> pyval \<Rightarrow> error + pyval" where
  "arith Mul (Atom a) (Atom b) =
     (case num_arith (*) (*) a b of
        Some v \<Rightarrow> Inr v
      | None \<Rightarrow>
          (case (a, int_of b) of
             (AStr s, Some n) \<Rightarrow> Inr (VStr (repeat n s))
           | _ \<Rightarrow> (case (int_of a, b) of
                     (Some n, AStr s) \<Rightarrow> Inr (VStr (repeat n s))
                   | _ \<Rightarrow> Inl TypeError)))"
| "arith Mul (VList xs) (Atom b) =
     (case int_of b of Some n \<Rightarrow> Inr (VList (repeat n xs)) | None \<Rightarrow> Inl TypeError)"
| "arith Mul (Atom a) (VList xs) =
     (case int_of a of Some n \<Rightarrow> Inr (VList (repeat n xs)) | None \<Rightarrow> Inl TypeError)"
| "arith Div (Atom a) (Atom b) =
     (case (num_of a, num_of b) of
        (Some x, Some y) \<Rightarrow> if y = 0 then Inl ZeroDivisionError else Inr (VFloat (x / y))
      | _ \<Rightarrow> Inl TypeError)"
| "arith Add (Atom a) (Atom b) =
     (case num_arith (+) (+) a b of
        Some v \<Rightarrow> Inr v
      | None \<Rightarrow> (case (a, b) of
                   (AStr s, AStr t) \<Rightarrow> Inr (VStr (s @ t))
                 | _ \<Rightarrow> Inl TypeError))"
| "arith Add (VList xs) (VList ys) = Inr (VList (xs @ ys))"
| "arith Sub (Atom a) (Atom b) =
     (case num_arith (-) (-) a b of Some v \<Rightarrow> Inr v | None \<Rightarrow> Inl TypeError)"
| "arith Sub (VSet xs) (VSet ys) = Inr (VSet (filter (\<lambda>x. \<not> atom_in x ys) xs))"
| "arith _ _ _ = Inl TypeError"

section \<open>Data model (qutypes.py)\<close>

text \<open>
  The integer fields that pydantic validates (\<open>gt=0\<close>, \<open>ge=0\<close>) and the occurrence
  counts of gates and measurements are natural numbers. A dict is an association list
  in insertion order, looked up with \<open>map_of\<close>; a dict has pairwise distinct keys. The
  fields \<open>id\<close> and \<open>name\<close> carry the name of their class.
\<close>

datatype QPUProvider = IBM | AZURE | AWS

datatype GateType = X | Y | Z | H | CNOT | CZ | RZ | RX | RY | T | S

record QuantumCircuit =
  circuit_id :: string
  circuit_name :: string
  qubits_required :: nat
  shots :: nat
  gate_counts :: "(GateType \<times> nat) list"
  depth :: nat
  qubits_used :: "int list"
  measurements :: "(int \<times> nat) list"

record QPUResource =
  qpu_id :: string
  qpu_name :: string
  provider :: QPUProvider
  qubits :: nat
  native_gates :: "GateType list"
  gate_fidelities :: "(GateType \<times> real) list"
  readout_fidelities :: "(int \<times> real) list"
  max_depth :: nat
  max_shots :: nat
  workload :: nat
  available :: bool
  cost :: "QuantumCircuit \<Rightarrow> real"

record OptimizationWeights =
  cost_weight :: real
  error_weight :: real
  workload_weight :: real

text \<open>
  \<open>math.isclose(a, b, rel_tol=r)\<close> with the default \<open>abs_tol = 0\<close>, as CPython computes
  it on finite arguments.
\<close>

definition isclose :: "real \<Rightarrow> real \<Rightarrow> real \<Rightarrow> bool" where
  "isclose a b rel_tol =
     (if a = b then True
      else \<bar>b - a\<bar> \<le> \<bar>rel_tol * b\<bar> \<or> \<bar>b - a\<bar> \<le> \<bar>rel_tol * a\<bar> \<or> \<bar>b - a\<bar> \<le> 0)"

text \<open>
  Construction of \<open>OptimizationWeights\<close>: the field validators \<open>ge=0, le=1\<close> run first,
  then \<open>model_post_init\<close> checks the sum. The message of the ValueError is kept without
  the printed total. pydantic hands a ValueError raised during construction to the caller
  as its own ValidationError, which is a subclass of ValueError; the two values of
  \<open>error\<close> tell the failed field bound from the failed sum.
\<close>

definition new_OptimizationWeights :: "real \<Rightarrow> real \<Rightarrow> real \<Rightarrow> error + OptimizationWeights" where
  "new_OptimizationWeights cw ew ww =
     (if \<not> (0 \<le> cw \<and> cw \<le> 1) \<or> \<not> (0 \<le> ew \<and> ew \<le> 1) \<or> \<not> (0 \<le> ww \<and> ww \<le> 1)
      then Inl ValidationError
      else
        let total = cw + ew + ww in
        if \<not> isclose total 1.0 (1 / 10 ^ 6)
        then Inl (ValueError ''Weights must sum to 1.0'')
        else Inr \<lparr>cost_weight = cw, error_weight = ew, workload_weight = ww\<rparr>)"

datatype ConstraintOperator =
  EQ | NE | GT | GE | LT | LE | IN | NOT_IN | CONTAINS | SUBSET | SUPERSET

datatype ConstraintTarget = QPU | CIRCUIT | COMPUTED

record Constraint =
  name :: string
  description :: string
  target :: ConstraintTarget
  property :: string
  operator :: ConstraintOperator
  "value" :: pyval
  custom_fn :: "(QPUResource \<Rightarrow> QuantumCircuit \<Rightarrow> error + bool) option"
  parameters :: "(string \<times> pyval) list"

record QuBindEngine =
  qpus :: "QPUResource list"

section \<open>The figure-of-merit calculator (qubind.py)\<close>

text \<open>
  \<open>_normalize_cost\<close>, over the reals. Two things that the floating-point expression does
  are not visible here: for a large cost \<open>math.exp\<close> is so small that the quotient is
  exactly 1.0, and for a cost far below zero \<open>math.exp\<close> raises OverflowError. The
  properties of the figure of merit below are therefore stated for a cost that is not
  negative, and bound the normalized cost by 0 and 1 inclusively.
\<close>

definition normalize_cost :: "real \<Rightarrow> real" where
  "normalize_cost c = 1 / (1 + exp (- 0.01 * (c - 100)))"

text \<open>
  One loop of \<open>_calculate_fidelity\<close>: for every item of the workload's dict whose key is
  in the resource's table, the accumulator is multiplied by \<open>table[key] ** count\<close>.
\<close>

fun fidelity_loop :: "('k \<times> real) list \<Rightarrow> ('k \<times> nat) list \<Rightarrow> real \<Rightarrow> real" where
  "fidelity_loop table [] acc = acc"
| "fidelity_loop table ((k, n) # items) acc =
     fidelity_loop table items
       (case map_of table k of Some f \<Rightarrow> acc * f ^ n | None \<Rightarrow> acc)"

definition calculate_fidelity :: "QPUResource \<Rightarrow> QuantumCircuit \<Rightarrow> real" where
  "calculate_fidelity qpu circuit =
     (if gate_counts circuit = [] then 1.0
      else
        let gate_fidelity = fidelity_loop (gate_fidelities qpu) (gate_counts circuit) 1.0;
            readout_fidelity = fidelity_loop (readout_fidelities qpu) (measurements circuit) 1.0
        in gate_fidelity * readout_fidelity)"

definition normalize_workload :: "nat \<Rightarrow> real" where
  "normalize_workload w = min 1.0 (real w / 100.0)"

definition calculate_cost :: "QPUResource \<Rightarrow> QuantumCircuit \<Rightarrow> real" where
  "calculate_cost qpu circuit = cost qpu circuit"

definition calculate_figure_of_merit ::
    "QPUResource \<Rightarrow> QuantumCircuit \<Rightarrow> OptimizationWeights \<Rightarrow> real" where
  "calculate_figure_of_merit qpu circuit weights =
     (let c = normalize_cost (calculate_cost qpu circuit);
          fidelity = calculate_fidelity qpu circuit;
          w = normalize_workload (workload qpu)
      in cost_weight weights * c
         + error_weight weights * (1 - fidelity)
         + workload_weight weights * w)"

section \<open>Property resolver and expression evaluator (constraint_utils.py)\<close>

text \<open>
  The attributes of a resource and of a workload that \<open>hasattr\<close> and \<open>getattr\<close> see are
  their declared fields. The methods a pydantic model or a built-in value also has are
  not attributes of the model.
\<close>

fun gate_name :: "GateType \<Rightarrow> string" where
  "gate_name X = ''X''"
| "gate_name Y = ''Y''"
| "gate_name Z = ''Z''"
| "gate_name H = ''H''"
| "gate_name CNOT = ''CNOT''"
| "gate_name CZ = ''CZ''"
| "gate_name RZ = ''RZ''"
| "gate_name RX = ''RX''"
| "gate_name RY = ''RY''"
| "gate_name T = ''T''"
| "gate_name S = ''S''"

fun provider_name :: "QPUProvider \<Rightarrow> string" where
  "provider_name IBM = ''IBM''"
| "provider_name AZURE = ''AZURE''"
| "provider_name AWS = ''AWS''"

definition qpu_attributes :: "QPUResource \<Rightarrow> (string \<times> pyval) list" where
  "qpu_attributes q =
     [(''id'', VStr (qpu_id q)),
      (''name'', VStr (qpu_name q)),
      (''provider'', VStr (provider_name (provider q))),
      (''qubits'', VInt (int (qubits q))),
      (''native_gates'', VSet (map (\<lambda>g. AStr (gate_name g)) (native_gates q))),
      (''gate_fidelities'',
         VDict (map (\<lambda>(g, f). (AStr (gate_name g), AFloat f)) (gate_fidelities q))),
      (''readout_fidelities'',
         VDict (map (\<lambda>(i, f). (AInt i, AFloat f)) (readout_fidelities q))),
      (''max_depth'', VInt (int (max_depth q))),
      (''max_shots'', VInt (int (max_shots q))),
      (''workload'', VInt (int (workload q))),
      (''available'', VBool (available q))]"

definition circuit_attributes :: "QuantumCircuit \<Rightarrow> (string \<times> pyval) list" where
  "circuit_attributes c =
     [(''id'', VStr (circuit_id c)),
      (''name'', VStr (circuit_name c)),
      (''qubits_required'', VInt (int (qubits_required c))),
      (''shots'', VInt (int (shots c))),
      (''gate_counts'',
         VDict (map (\<lambda>(g, n). (AStr (gate_name g), AInt (int n))) (gate_counts c))),
      (''depth'', VInt (int (depth c))),
      (''qubits_used'', VSet (map AInt (qubits_used c))),
      (''measurements'',
         VDict (map (\<lambda>(i, n). (AInt i, AInt (int n))) (measurements c)))]"

text \<open>
  One step of the loop of \<open>get_nested_property\<close> on a value already reached: a built-in
  value has no attribute of the model, so only a dict with the segment as a key resolves.
\<close>

fun get_item :: "pyval \<Rightarrow> string \<Rightarrow> pyval option" where
  "get_item (VDict kvs) part = map_option Atom (dict_get kvs (AStr part))"
| "get_item _ part = None"

fun walk_parts :: "pyval \<Rightarrow> string list \<Rightarrow> pyval option" where
  "walk_parts current [] = Some current"
| "walk_parts current (part # parts) =
     (case get_item current part of
        None \<Rightarrow> None
      | Some v \<Rightarrow> walk_parts v parts)"

text \<open>
  \<open>get_nested_property obj path\<close>, with \<open>obj\<close> given by its attributes: the first
  segment is looked up among the attributes of the object, the later ones on the values
  reached.
\<close>

definition get_nested_property :: "(string \<times> pyval) list \<Rightarrow> string \<Rightarrow> error + pyval" where
  "get_nested_property obj property_path =
     (let not_found = Inl (ValueError (''Property '' @ property_path @ '' not found in object''))
      in
      if py_contains ''.'' property_path then
        (case py_split ''.'' property_path of
           [] \<Rightarrow> not_found
         | part # parts \<Rightarrow>
             (case map_of obj part of
                None \<Rightarrow> not_found
              | Some v \<Rightarrow>
                  (case walk_parts v parts of
                     None \<Rightarrow> not_found
                   | Some current \<Rightarrow> Inr current)))
      else
        (case map_of obj property_path of
           Some v \<Rightarrow> Inr v
         | None \<Rightarrow> not_found))"

text \<open>
  The derived properties. The same chain of comparisons stands in \<open>evaluate_expression\<close>
  and in \<open>Constraint.evaluate\<close>.
\<close>

definition computed_property :: "string \<Rightarrow> QPUResource \<Rightarrow> QuantumCircuit \<Rightarrow> error + pyval" where
  "computed_property prop_name qpu circuit =
     (if prop_name = ''fidelity'' then Inr (VFloat (calculate_fidelity qpu circuit))
      else if prop_name = ''cost'' then Inr (VFloat (cost qpu circuit))
      else if prop_name = ''normalized_cost'' then Inr (VFloat (normalize_cost (cost qpu circuit)))
      else if prop_name = ''normalized_workload''
        then Inr (VFloat (normalize_workload (workload qpu)))
      else if prop_name = ''circuit_depth'' then Inr (VInt (int (depth circuit)))
      else Inl (ValueError (''Computed property '' @ prop_name @ '' not supported'')))"

fun token :: "arith_op \<Rightarrow> string" where
  "token Mul = '' * ''"
| "token Div = '' / ''"
| "token Add = '' + ''"
| "token Sub = '' - ''"

text \<open>The last step: \<open>int(expression)\<close>, then \<open>float(expression)\<close>, then the string itself.\<close>

definition literal_value :: "string \<Rightarrow> error + pyval" where
  "literal_value expression =
     (case py_int expression of
        Some i \<Rightarrow> Inr (VInt i)
      | None \<Rightarrow>
          (case py_float expression of
             Some x \<Rightarrow> Inr (VFloat x)
           | None \<Rightarrow> Inr (VStr expression)))"

lemma py_split_two:
  assumes "py_split sep s = [l, r]" and "sep \<noteq> []"
  shows "partition_at sep s = Some (l, r) \<and> partition_at sep r = None"
proof (cases "partition_at sep s")
  case None
  with assms show ?thesis by (simp add: py_split_None)
next
  case (Some p)
  obtain b a where p: "p = (b, a)" by (cases p)
  with Some assms have l: "l = b" and rest: "py_split sep a = [r]"
    by (simp_all add: py_split_Some)
  show ?thesis
  proof (cases "partition_at sep a")
    case None
    with rest have "r = a" by (simp add: py_split_None)
    with None Some p l show ?thesis by simp
  next
    case (Some p')
    obtain b' a' where "p' = (b', a')" by (cases p')
    with Some rest assms(2) have "py_split sep a' = []" by (simp add: py_split_Some)
    then show ?thesis by (simp add: py_split_not_Nil)
  qed
qed

lemma py_split_two_length:
  assumes "py_split sep s = [l, r]" and "sep \<noteq> []"
  shows "length l + length sep + length r = length s"
  using py_split_two [OF assms] by (simp add: partition_at_length)

lemma length_py_strip: "length (py_strip s) \<le> length s"
proof -
  have "length (py_strip s) \<le> length (dropWhile isspace s)"
    unfolding py_strip_def using length_dropWhile_le [of isspace "rev (dropWhile isspace s)"]
    by simp
  also have "\<dots> \<le> length s" by (rule length_dropWhile_le)
  finally show ?thesis .
qed

lemma token_length [simp]: "length (token op) = 3"
  by (cases op) simp_all

lemma token_not_Nil [simp]: "token op \<noteq> []"
  by (cases op) simp_all

lemma split_part_smaller:
  assumes "py_split (token op) e = [l, r]"
  shows "4 + 2 * length (py_strip l) < 2 * length e + n"
    and "4 + 2 * length (py_strip r) < 2 * length e + n"
  using py_split_two_length [OF assms token_not_Nil] length_py_strip [of l] length_py_strip [of r]
  by simp_all

text \<open>
  \<open>evaluate_expression\<close>. The four blocks that handle \<open>" * "\<close>, \<open>" / "\<close>, \<open>" + "\<close> and
  \<open>" - "\<close> are the same code for four operators; \<open>arithmetic_stages ops\<close> runs the blocks
  of the operators \<open>ops\<close> in order and ends with the literal step. Python's \<open>None\<close> for an
  absent resource, workload or engine is \<open>None\<close>; every object is true.
\<close>

function evaluate_expression ::
    "string \<Rightarrow> QPUResource option \<Rightarrow> QuantumCircuit option \<Rightarrow> QuBindEngine option \<Rightarrow> error + pyval"
  and arithmetic_stages ::
    "arith_op list \<Rightarrow> string \<Rightarrow> QPUResource option \<Rightarrow> QuantumCircuit option \<Rightarrow>
     QuBindEngine option \<Rightarrow> error + pyval"
where
  "evaluate_expression expression qpu circuit engine =
     (if py_startswith expression ''qpu.'' \<and> qpu \<noteq> None
        then get_nested_property (qpu_attributes (the qpu)) (drop 4 expression)
      else if py_startswith expression ''circuit.'' \<and> circuit \<noteq> None
        then get_nested_property (circuit_attributes (the circuit)) (drop 8 expression)
      else if py_startswith expression ''computed.'' \<and> engine \<noteq> None \<and> qpu \<noteq> None
              \<and> circuit \<noteq> None
        then computed_property (drop 9 expression) (the qpu) (the circuit)
      else arithmetic_stages [Mul, Div, Add, Sub] expression qpu circuit engine)"
| "arithmetic_stages [] expression qpu circuit engine = literal_value expression"
| "arithmetic_stages (op # ops) expression qpu circuit engine =
     (if py_contains (token op) expression then
        (case py_split (token op) expression of
           [l, r] \<Rightarrow>
             (case evaluate_expression (py_strip l) qpu circuit engine of
                Inl e \<Rightarrow> Inl e
              | Inr left \<Rightarrow>
                  (case py_float (py_strip r) of
                     Some right \<Rightarrow> arith op left (VFloat right)
                   | None \<Rightarrow>
                       (case evaluate_expression (py_strip r) qpu circuit engine of
                          Inl e \<Rightarrow> Inl e
                        | Inr right \<Rightarrow> arith op left right)))
         | _ \<Rightarrow> arithmetic_stages ops expression qpu circuit engine)
      else arithmetic_stages ops expression qpu circuit engine)"
  by pat_completeness auto

termination
proof (relation "measure (\<lambda>x. case x of
            Inl (e, q, c, g) \<Rightarrow> 2 * length e + 5
          | Inr (ops, e, q, c, g) \<Rightarrow> 2 * length e + length ops)")
  show "wf (measure (\<lambda>x. case x of
            Inl (e, q :: QPUResource option, c :: QuantumCircuit option,
                 g :: QuBindEngine option) \<Rightarrow> 2 * length (e :: string) + 5
          | Inr (ops :: arith_op list, e, q, c, g) \<Rightarrow> 2 * length e + length ops))"
    by simp
qed (simp_all add: split_part_smaller)

declare evaluate_expression.simps [simp del] arithmetic_stages.simps [simp del]

text \<open>
  The condition under which one of the three property branches of \<open>evaluate_expression\<close>
  is taken.
\<close>

definition property_reference ::
    "string \<Rightarrow> QPUResource option \<Rightarrow> QuantumCircuit option \<Rightarrow> QuBindEngine option \<Rightarrow> bool" where
  "property_reference expression qpu circuit engine =
     ((py_startswith expression ''qpu.'' \<and> qpu \<noteq> None)
      \<or> (py_startswith expression ''circuit.'' \<and> circuit \<noteq> None)
      \<or> (py_startswith expression ''computed.'' \<and> engine \<noteq> None \<and> qpu \<noteq> None
          \<and> circuit \<noteq> None))"

text \<open>
  What one arithmetic block does once its operator has cut the expression into \<open>l\<close> and
  \<open>r\<close>: the left part is evaluated, the right part is read as a float or else evaluated,
  and the two are combined with the operator.
\<close>

definition combine_split ::
    "arith_op \<Rightarrow> string \<Rightarrow> string \<Rightarrow> QPUResource option \<Rightarrow> QuantumCircuit option \<Rightarrow>
     QuBindEngine option \<Rightarrow> error + pyval" where
  "combine_split op l r qpu circuit engine =
     (case evaluate_expression (py_strip l) qpu circuit engine of
        Inl e \<Rightarrow> Inl e
      | Inr left \<Rightarrow>
          (case py_float (py_strip r) of
             Some right \<Rightarrow> arith op left (VFloat right)
           | None \<Rightarrow>
               (case evaluate_expression (py_strip r) qpu circuit engine of
                  Inl e \<Rightarrow> Inl e
                | Inr right \<Rightarrow> arith op left right)))"

section \<open>Constraint evaluation (qutypes.py)\<close>

text \<open>
  The comparison value of a constraint: a string that contains one of the markers
  \<open>"qpu."\<close>, \<open>"circuit."\<close>, \<open>"computed."\<close> is passed through the expression evaluator.
\<close>

definition comparison_value ::
    "Constraint \<Rightarrow> QPUResource \<Rightarrow> QuantumCircuit \<Rightarrow> QuBindEngine option \<Rightarrow> error + pyval" where
  "comparison_value self qpu circuit engine =
     (case value self of
        Atom (AStr s) \<Rightarrow>
          if list_ex (\<lambda>x. py_contains x s) [''qpu.'', ''circuit.'', ''computed.'']
          then evaluate_expression s (Some qpu) (Some circuit) engine
          else Inr (value self)
      | _ \<Rightarrow> Inr (value self))"

definition property_value ::
    "Constraint \<Rightarrow> QPUResource \<Rightarrow> QuantumCircuit \<Rightarrow> QuBindEngine option \<Rightarrow> error + pyval" where
  "property_value self qpu circuit engine =
     (case target self of
        QPU \<Rightarrow> get_nested_property (qpu_attributes qpu) (property self)
      | CIRCUIT \<Rightarrow> get_nested_property (circuit_attributes circuit) (property self)
      | COMPUTED \<Rightarrow>
          if engine = None then Inl (ValueError ''Engine required for computed properties'')
          else computed_property (property self) qpu circuit)"

definition apply_operator :: "ConstraintOperator \<Rightarrow> pyval \<Rightarrow> pyval \<Rightarrow> error + bool" where
  "apply_operator oper pv cv =
     (case oper of
        EQ \<Rightarrow> Inr (py_eq pv cv)
      | NE \<Rightarrow> Inr (\<not> py_eq pv cv)
      | GT \<Rightarrow> py_cmp Greater pv cv
      | GE \<Rightarrow> py_cmp GreaterEq pv cv
      | LT \<Rightarrow> py_cmp Less pv cv
      | LE \<Rightarrow> py_cmp LessEq pv cv
      | IN \<Rightarrow> py_in pv cv
      | NOT_IN \<Rightarrow> (case py_in pv cv of Inl e \<Rightarrow> Inl e | Inr b \<Rightarrow> Inr (\<not> b))
      | CONTAINS \<Rightarrow> (case py_iter cv of Inl e \<Rightarrow> Inl e | Inr items \<Rightarrow> all_in items pv)
      | SUBSET \<Rightarrow>
          (case py_iter pv of
             Inl e \<Rightarrow> Inl e
           | Inr xs \<Rightarrow> (case py_iter cv of Inl e \<Rightarrow> Inl e | Inr ys \<Rightarrow> Inr (subset_atoms xs ys)))
      | SUPERSET \<Rightarrow>
          (case py_iter pv of
             Inl e \<Rightarrow> Inl e
           | Inr xs \<Rightarrow> (case py_iter cv of Inl e \<Rightarrow> Inl e | Inr ys \<Rightarrow> Inr (subset_atoms ys xs))))"

text \<open>\<open>Constraint.evaluate(qpu, circuit, engine)\<close>\<close>

definition evaluate ::
    "Constraint \<Rightarrow> QPUResource \<Rightarrow> QuantumCircuit \<Rightarrow> QuBindEngine option \<Rightarrow> error + bool" where
  "evaluate self qpu circuit engine =
     (case custom_fn self of
        Some f \<Rightarrow> f qpu circuit
      | None \<Rightarrow>
          (case property_value self qpu circuit engine of
             Inl e \<Rightarrow> Inl e
           | Inr pv \<Rightarrow>
               (case comparison_value self qpu circuit engine of
                  Inl e \<Rightarrow> Inl e
                | Inr cv \<Rightarrow> apply_operator (operator self) pv cv)))"

section \<open>The engine (qubind.py)\<close>

text \<open>
  The enum constructors \<open>ConstraintTarget(target)\<close> and \<open>ConstraintOperator(operator)\<close>
  raise ValueError on a string that is no member's value.
\<close>

definition ConstraintTarget_of :: "string \<Rightarrow> error + ConstraintTarget" where
  "ConstraintTarget_of s =
     (if s = ''qpu'' then Inr QPU
      else if s = ''circuit'' then Inr CIRCUIT
      else if s = ''computed'' then Inr COMPUTED
      else Inl (ValueError (s @ '' is not a valid ConstraintTarget'')))"

definition ConstraintOperator_of :: "string \<Rightarrow> error + ConstraintOperator" where
  "ConstraintOperator_of s =
     (case map_of
        [(''eq'', EQ), (''ne'', NE), (''gt'', GT), (''ge'', GE), (''lt'', LT), (''le'', LE),
         (''in'', IN), (''not_in'', NOT_IN), (''contains'', CONTAINS), (''subset'', SUBSET),
         (''superset'', SUPERSET)] s of
        Some oper \<Rightarrow> Inr oper
      | None \<Rightarrow> Inl (ValueError (s @ '' is not a valid ConstraintOperator'')))"

definition create_constraint ::
    "string \<Rightarrow> string \<Rightarrow> string \<Rightarrow> string \<Rightarrow> string \<Rightarrow> pyval \<Rightarrow> (string \<times> pyval) list option
     \<Rightarrow> error + Constraint" where
  "create_constraint nm descr targ prop oper val params =
     (case ConstraintTarget_of targ of
        Inl e \<Rightarrow> Inl e
      | Inr t \<Rightarrow>
          (case ConstraintOperator_of oper of
             Inl e \<Rightarrow> Inl e
           | Inr ope \<Rightarrow>
               Inr \<lparr>name = nm, description = descr, target = t, property = prop,
                    operator = ope, value = val, custom_fn = None,
                    parameters = (case params of None \<Rightarrow> [] | Some ps \<Rightarrow> ps)\<rparr>))"

text \<open>
  The loop over the constraints in \<open>_is_feasible\<close>: a constraint that evaluates to false,
  or whose evaluation raises, ends the loop with \<open>False\<close>.
\<close>

fun constraints_loop ::
    "QuBindEngine \<Rightarrow> QPUResource \<Rightarrow> QuantumCircuit \<Rightarrow> Constraint list \<Rightarrow> bool" where
  "constraints_loop self qpu circuit [] = True"
| "constraints_loop self qpu circuit (constraint # constraints) =
     (case evaluate constraint qpu circuit (Some self) of
        Inl e \<Rightarrow> False
      | Inr holds \<Rightarrow>
          if \<not> holds then False else constraints_loop self qpu circuit constraints)"

definition is_feasible ::
    "QuBindEngine \<Rightarrow> QPUResource \<Rightarrow> QuantumCircuit \<Rightarrow> Constraint list \<Rightarrow> bool" where
  "is_feasible self qpu circuit constraints =
     (if \<not> available qpu then False
      else if qubits qpu < qubits_required circuit then False
      else constraints_loop self qpu circuit constraints)"

fun matching_loop ::
    "QuBindEngine \<Rightarrow> QuantumCircuit \<Rightarrow> Constraint list \<Rightarrow> QPUResource list \<Rightarrow>
     QPUResource list \<Rightarrow> QPUResource list" where
  "matching_loop self circuit constraints [] feasible_qpus = feasible_qpus"
| "matching_loop self circuit constraints (qpu # rest) feasible_qpus =
     matching_loop self circuit constraints rest
       (if is_feasible self qpu circuit constraints then feasible_qpus @ [qpu]
        else feasible_qpus)"

definition matching_phase ::
    "QuBindEngine \<Rightarrow> QuantumCircuit \<Rightarrow> Constraint list \<Rightarrow> QPUResource list" where
  "matching_phase self circuit constraints =
     matching_loop self circuit constraints (qpus self) []"

text \<open>
  The scan of \<open>optimization_phase\<close>. \<open>best_fom\<close> starts as \<open>float("inf")\<close>, written
  \<open>None\<close>; \<open>best_qpu\<close> starts as Python's \<open>None\<close>.
\<close>

fun optimization_loop ::
    "QPUResource list \<Rightarrow> QuantumCircuit \<Rightarrow> OptimizationWeights \<Rightarrow>
     QPUResource option \<Rightarrow> real option \<Rightarrow> QPUResource option" where
  "optimization_loop [] circuit weights best_qpu best_fom = best_qpu"
| "optimization_loop (qpu # rest) circuit weights best_qpu best_fom =
     (let fom = calculate_figure_of_merit qpu circuit weights in
      if (case best_fom of None \<Rightarrow> True | Some b \<Rightarrow> fom < b)
      then optimization_loop rest circuit weights (Some qpu) (Some fom)
      else optimization_loop rest circuit weights best_qpu best_fom)"

definition optimization_phase ::
    "QPUResource list \<Rightarrow> QuantumCircuit \<Rightarrow> OptimizationWeights \<Rightarrow> error + QPUResource option" where
  "optimization_phase feasible_qpus circuit weights =
     (if feasible_qpus = [] then Inl (ValueError ''No feasible QPUs found'')
      else Inr (optimization_loop feasible_qpus circuit weights None None))"

section \<open>The binding endpoint (api.py)\<close>

record ConstraintRequest =
  request_name :: string
  request_description :: string
  request_target :: string
  request_property :: string
  request_operator :: string
  request_value :: pyval
  request_parameters :: "(string \<times> pyval) list option"

record BindRequest =
  qasm :: string
  request_shots :: nat
  request_constraints :: "ConstraintRequest list"
  figures_of_merit :: "(string \<times> real) list"
  ranking :: bool

text \<open>An entry of the ranked list: the dict with the keys \<open>qpu_id\<close>, \<open>qpu_name\<close>,
  \<open>provider\<close> and \<open>figure_of_merit\<close>.\<close>

record RankedQPU =
  ranked_qpu_id :: string
  ranked_qpu_name :: string
  ranked_provider :: QPUProvider
  ranked_figure_of_merit :: real

record BindingResult =
  selected_qpu :: QPUResource
  figure_of_merit :: real
  ranked_qpus :: "RankedQPU list option"

text \<open>The entries appended when no figures of merit are given, and when they are.\<close>

definition unscored_entry :: "QPUResource \<Rightarrow> RankedQPU" where
  "unscored_entry qpu =
     \<lparr>ranked_qpu_id = qpu_id qpu, ranked_qpu_name = qpu_name qpu,
      ranked_provider = provider qpu, ranked_figure_of_merit = 0.0\<rparr>"

definition scored_entry :: "QuantumCircuit \<Rightarrow> OptimizationWeights \<Rightarrow> QPUResource \<Rightarrow> RankedQPU" where
  "scored_entry circuit weights qpu =
     \<lparr>ranked_qpu_id = qpu_id qpu, ranked_qpu_name = qpu_name qpu,
      ranked_provider = provider qpu,
      ranked_figure_of_merit = calculate_figure_of_merit qpu circuit weights\<rparr>"

text \<open>
  The part of \<open>bind_qpus\<close> after the matching phase. \<open>list.sort(key=...)\<close> is a stable
  sort, as \<open>sort_key\<close> is.
\<close>

definition bind_feasible ::
    "(string \<times> real) list \<Rightarrow> bool \<Rightarrow> QPUResource list \<Rightarrow> QuantumCircuit \<Rightarrow>
     OptimizationWeights \<Rightarrow> error + BindingResult" where
  "bind_feasible request_figures_of_merit request_ranking feasible_qpus circuit weights =
     (case feasible_qpus of
        [] \<Rightarrow> Inl (HTTPException 404 ''No feasible QPUs found for the given constraints'')
      | first # others \<Rightarrow>
          if request_figures_of_merit = [] then
            (if request_ranking
             then Inr \<lparr>selected_qpu = first, figure_of_merit = 0.0,
                       ranked_qpus = Some (map unscored_entry feasible_qpus)\<rparr>
             else Inr \<lparr>selected_qpu = first, figure_of_merit = 0.0, ranked_qpus = None\<rparr>)
          else
            (case optimization_phase feasible_qpus circuit weights of
               Inl e \<Rightarrow> Inl e
             | Inr None \<Rightarrow> Inl AttributeError
             | Inr (Some optimal_qpu) \<Rightarrow>
                 (let fom = calculate_figure_of_merit optimal_qpu circuit weights in
                  if request_ranking
                  then Inr \<lparr>selected_qpu = optimal_qpu, figure_of_merit = fom,
                            ranked_qpus =
                              Some (sort_key ranked_figure_of_merit
                                      (map (scored_entry circuit weights) feasible_qpus))\<rparr>
                  else Inr \<lparr>selected_qpu = optimal_qpu, figure_of_merit = fom,
                            ranked_qpus = None\<rparr>)))"

fun create_constraints :: "ConstraintRequest list \<Rightarrow> error + Constraint list" where
  "create_constraints [] = Inr []"
| "create_constraints (r # rs) =
     (case create_constraint (request_name r) (request_description r) (request_target r)
             (request_property r) (request_operator r) (request_value r)
             (request_parameters r) of
        Inl e \<Rightarrow> Inl e
      | Inr constraint \<Rightarrow>
          (case create_constraints rs of
             Inl e \<Rightarrow> Inl e
           | Inr constraints \<Rightarrow> Inr (constraint # constraints)))"

definition dict_get_default :: "(string \<times> real) list \<Rightarrow> string \<Rightarrow> real \<Rightarrow> real" where
  "dict_get_default d k fallback = (case map_of d k of Some v \<Rightarrow> v | None \<Rightarrow> fallback)"

text \<open>
  \<open>bind_qpus\<close>. The QASM parser (qiskit) and the engine of the module are parameters.
  Every exception raised inside the \<open>try\<close> block, the 404 included, leaves as the
  HTTPException 400.
\<close>

definition bind_qpus ::
    "(string \<Rightarrow> error + QuantumCircuit) \<Rightarrow> QuBindEngine \<Rightarrow> BindRequest \<Rightarrow> error + BindingResult" where
  "bind_qpus parse_qasm_to_circuit qubind request =
     (let attempt =
        (case parse_qasm_to_circuit (qasm request) of
           Inl e \<Rightarrow> Inl e
         | Inr parsed \<Rightarrow>
             (let circuit = parsed\<lparr>shots := request_shots request\<rparr> in
              case create_constraints (request_constraints request) of
                Inl e \<Rightarrow> Inl e
              | Inr constraints \<Rightarrow>
                  (case new_OptimizationWeights
                          (dict_get_default (figures_of_merit request) ''cost_weight'' 0.33)
                          (dict_get_default (figures_of_merit request) ''error_weight'' 0.33)
                          (dict_get_default (figures_of_merit request) ''workload_weight'' 0.34) of
                     Inl e \<Rightarrow> Inl e
                   | Inr weights \<Rightarrow>
                       bind_feasible (figures_of_merit request) (ranking request)
                         (matching_phase qubind circuit constraints) circuit weights)))
      in case attempt of
           Inl e \<Rightarrow> Inl (HTTPException 400 ''Error in binding process'')
         | Inr result \<Rightarrow> Inr result)"

section \<open>The specification's fidelity formula\<close>

text \<open>
  The product the specification describes: over the keys present both in the workload's
  mapping and in the resource's table, of \<open>table[key] ^ count\<close>.
\<close>

definition spec_product :: "('k \<times> real) list \<Rightarrow> ('k \<times> nat) list \<Rightarrow> real" where
  "spec_product table counts =
     (\<Prod>k \<in> fst ` set counts \<inter> fst ` set table. the (map_of table k) ^ the (map_of counts k))"

definition spec_fidelity :: "QPUResource \<Rightarrow> QuantumCircuit \<Rightarrow> real" where
  "spec_fidelity qpu circuit =
     spec_product (gate_fidelities qpu) (gate_counts circuit)
     * spec_product (readout_fidelities qpu) (measurements circuit)"

section \<open>Example data\<close>

definition bell_circuit :: QuantumCircuit where
  "bell_circuit =
     \<lparr>circuit_id = ''c-1'', circuit_name = ''bell'', qubits_required = 2, shots = 1000,
      gate_counts = [(H, 1), (CNOT, 1)], depth = 2, qubits_used = [0, 1],
      measurements = [(0, 1), (1, 1)]\<rparr>"

definition measure_only_circuit :: QuantumCircuit where
  "measure_only_circuit =
     \<lparr>circuit_id = ''c-2'', circuit_name = ''readout'', qubits_required = 1, shots = 1000,
      gate_counts = [], depth = 1, qubits_used = [0], measurements = [(0, 1)]\<rparr>"

definition mock_qpu :: "string \<Rightarrow> nat \<Rightarrow> nat \<Rightarrow> bool \<Rightarrow> QPUResource" where
  "mock_qpu ident n pending avail =
     \<lparr>qpu_id = ident, qpu_name = ident, provider = IBM, qubits = n,
      native_gates = [H, CNOT], gate_fidelities = [(H, 1 / 2), (CNOT, 1 / 2)],
      readout_fidelities = [(0, 1 / 2), (1, 1 / 2)], max_depth = 1000, max_shots = 10000,
      workload = pending, available = avail, cost = (\<lambda>circuit. 100)\<rparr>"

definition workload_only_weights :: OptimizationWeights where
  "workload_only_weights = \<lparr>cost_weight = 0, error_weight = 0, workload_weight = 1\<rparr>"

definition default_weights :: OptimizationWeights where
  "default_weights = \<lparr>cost_weight = 0.33, error_weight = 0.33, workload_weight = 0.34\<rparr>"

definition qubits_at_least_50 :: Constraint where
  "qubits_at_least_50 =
     \<lparr>name = ''capacity'', description = ''at least 50 qubits'', target = QPU,
      property = ''qubits'', operator = GE, value = VInt 50, custom_fn = None,
      parameters = []\<rparr>"

definition unknown_property :: Constraint where
  "unknown_property =
     \<lparr>name = ''broken'', description = ''no such field'', target = QPU,
      property = ''colour'', operator = EQ, value = VInt 1, custom_fn = None,
      parameters = []\<rparr>"

definition example_engine :: QuBindEngine where
  "example_engine =
     \<lparr>qpus = [mock_qpu ''small'' 27 15 True, mock_qpu ''big'' 127 40 True,
              mock_qpu ''off'' 127 0 False]\<rparr>"

definition empty_ranking_request :: BindRequest where
  "empty_ranking_request =
     \<lparr>qasm = ''OPENQASM 2.0;'', request_shots = 1024, request_constraints = [],
      figures_of_merit = [], ranking = True\<rparr>"

definition bell_parser :: "string \<Rightarrow> error + QuantumCircuit" where
  "bell_parser source = Inr bell_circuit"

definition name_is_marker :: Constraint where
  "name_is_marker =
     \<lparr>name = ''marker'', description = ''name equals a derived-property marker'',
      target = QPU, property = ''name'', operator = EQ, value = VStr ''computed.fidelity'',
      custom_fn = None, parameters = []\<rparr>"

section \<open>Properties of the optimization phase\<close>

lemma optimization_loop_first_min:
  "\<exists>r pre post. optimization_loop xs c w (Some b) (Some (calculate_figure_of_merit b c w)) = Some r
     \<and> b # xs = pre @ r # post
     \<and> (\<forall>x\<in>set pre. calculate_figure_of_merit r c w < calculate_figure_of_merit x c w)
     \<and> (\<forall>x\<in>set post. calculate_figure_of_merit r c w \<le> calculate_figure_of_merit x c w)"
proof (induction xs arbitrary: b)
  case Nil
  have "optimization_loop [] c w (Some b) (Some (calculate_figure_of_merit b c w)) = Some b"
    and "[b] = [] @ b # []"
    by simp_all
  then show ?case by fastforce
next
  case (Cons x xs)
  let ?F = "\<lambda>q. calculate_figure_of_merit q c w"
  show ?case
  proof (cases "?F x < ?F b")
    case True
    from Cons.IH [of x] obtain r pre post where
      r: "optimization_loop xs c w (Some x) (Some (?F x)) = Some r"
      and d: "x # xs = pre @ r # post"
      and lo: "\<forall>y\<in>set pre. ?F r < ?F y"
      and hi: "\<forall>y\<in>set post. ?F r \<le> ?F y"
      by blast
    have "?F r \<le> ?F x"
    proof (cases pre)
      case Nil
      with d show ?thesis by simp
    next
      case (Cons p ps)
      with d lo show ?thesis by auto
    qed
    with True have rb: "?F r < ?F b" by simp
    have 1: "optimization_loop (x # xs) c w (Some b) (Some (?F b)) = Some r"
      using r True by (simp add: Let_def)
    have 2: "b # x # xs = (b # pre) @ r # post"
      using d by simp
    have 3: "\<forall>y\<in>set (b # pre). ?F r < ?F y"
      using lo rb by simp
    from 1 2 3 hi show ?thesis by blast
  next
    case False
    from Cons.IH [of b] obtain r pre post where
      r: "optimization_loop xs c w (Some b) (Some (?F b)) = Some r"
      and d: "b # xs = pre @ r # post"
      and lo: "\<forall>y\<in>set pre. ?F r < ?F y"
      and hi: "\<forall>y\<in>set post. ?F r \<le> ?F y"
      by blast
    have 1: "optimization_loop (x # xs) c w (Some b) (Some (?F b)) = Some r"
      using r False by (simp add: Let_def)
    show ?thesis
    proof (cases pre)
      case Nil
      with d have rb: "r = b" and post: "post = xs" by simp_all
      have 2: "b # x # xs = [] @ r # (x # post)"
        using rb post by simp
      have 3: "\<forall>y\<in>set (x # post). ?F r \<le> ?F y"
        using hi False rb by simp
      have 4: "\<forall>y\<in>set []. ?F r < ?F y"
        by simp
      from 1 2 3 4 show ?thesis by blast
    next
      case (Cons p ps)
      with d have p: "p = b" and xs: "xs = ps @ r # post" by simp_all
      from lo Cons p have "?F r < ?F b" by simp
      with False have rx: "?F r < ?F x" by simp
      have 2: "b # x # xs = (b # x # ps) @ r # post"
        using xs by simp
      have 3: "\<forall>y\<in>set (b # x # ps). ?F r < ?F y"
        using lo rx Cons p by simp
      from 1 2 3 hi show ?thesis by blast
    qed
  qed
qed

text \<open>
  Claim C2. For a non-empty feasible list the optimization phase returns a resource of the
  list whose figure of merit is minimal; every resource before it in the list has a
  strictly larger figure of merit, so among equal minima the first one is returned.
\<close>

theorem optimization_phase_first_minimum:
  assumes "feasible \<noteq> []"
  shows "\<exists>r pre post. optimization_phase feasible c w = Inr (Some r)
     \<and> feasible = pre @ r # post
     \<and> (\<forall>x\<in>set pre. calculate_figure_of_merit r c w < calculate_figure_of_merit x c w)
     \<and> (\<forall>x\<in>set post. calculate_figure_of_merit r c w \<le> calculate_figure_of_merit x c w)"
proof -
  from assms obtain b xs where f: "feasible = b # xs" by (cases feasible) auto
  have "optimization_loop feasible c w None None
        = optimization_loop xs c w (Some b) (Some (calculate_figure_of_merit b c w))"
    by (simp add: f Let_def)
  with optimization_loop_first_min [of xs c w b] assms f show ?thesis
    by (simp add: optimization_phase_def)
qed

theorem optimization_phase_first_minimum_witness:
  "\<exists>r pre post.
     optimization_phase
       [mock_qpu ''a'' 27 50 True, mock_qpu ''b'' 27 20 True, mock_qpu ''c'' 27 20 True]
       bell_circuit workload_only_weights = Inr (Some r)
     \<and> [mock_qpu ''a'' 27 50 True, mock_qpu ''b'' 27 20 True, mock_qpu ''c'' 27 20 True]
         = pre @ r # post
     \<and> (\<forall>x\<in>set pre. calculate_figure_of_merit r bell_circuit workload_only_weights
            < calculate_figure_of_merit x bell_circuit workload_only_weights)
     \<and> (\<forall>x\<in>set post. calculate_figure_of_merit r bell_circuit workload_only_weights
            \<le> calculate_figure_of_merit x bell_circuit workload_only_weights)"
  by (rule optimization_phase_first_minimum) simp

text \<open>
  Claim C6. Whatever the workload and the weights, the optimization phase called with an
  empty feasible list raises the ValueError "No feasible QPUs found"; no resource is
  returned.
\<close>

theorem optimization_phase_empty:
  "optimization_phase [] circuit weights = Inl (ValueError ''No feasible QPUs found'')"
  by (simp add: optimization_phase_def)

section \<open>Properties of the figure of merit\<close>

lemma normalize_cost_bounds: "0 \<le> normalize_cost x \<and> normalize_cost x \<le> 1"
proof -
  define e where "e = exp (- 0.01 * (x - 100))"
  have "0 < e" by (simp add: e_def)
  then have "0 \<le> 1 / (1 + e) \<and> 1 / (1 + e) \<le> 1" by simp
  then show ?thesis by (simp only: normalize_cost_def e_def)
qed

lemma normalize_workload_bounds: "0 \<le> normalize_workload n \<and> normalize_workload n \<le> 1"
  by (simp add: normalize_workload_def)

lemma fidelity_loop_bounds:
  "\<forall>(k, f)\<in>set table. 0 \<le> f \<and> f \<le> 1 \<Longrightarrow> 0 \<le> acc \<Longrightarrow> acc \<le> 1 \<Longrightarrow>
   0 \<le> fidelity_loop table items acc \<and> fidelity_loop table items acc \<le> 1"
proof (induction items arbitrary: acc)
  case Nil
  then show ?case by simp
next
  case (Cons it items)
  obtain k n where it: "it = (k, n)" by (cases it)
  show ?case
  proof (cases "map_of table k")
    case None
    with Cons it show ?thesis by simp
  next
    case (Some f)
    then have "(k, f) \<in> set table" by (rule map_of_SomeD)
    with Cons.prems have f: "0 \<le> f" "f \<le> 1" by auto
    then have "0 \<le> f ^ n" "f ^ n \<le> 1" by (simp_all add: power_le_one)
    with Cons.prems have "0 \<le> acc * f ^ n" "acc * f ^ n \<le> 1"
      by (simp_all add: mult_le_one)
    with Cons.IH [of "acc * f ^ n"] Cons.prems(1) Some it show ?thesis by simp
  qed
qed

text \<open>
  Claim C3, as stated, fails: with the valid weights (0, 0, 1) and an idle resource the
  figure of merit is exactly 0, which is not inside the open interval (0, 1).
\<close>

theorem figure_of_merit_open_interval_counterexample:
  "new_OptimizationWeights 0 0 1 = Inr workload_only_weights
   \<and> list_all (\<lambda>f. 0 \<le> f \<and> f \<le> 1) (map snd (gate_fidelities (mock_qpu ''a'' 27 0 True)))
   \<and> list_all (\<lambda>f. 0 \<le> f \<and> f \<le> 1) (map snd (readout_fidelities (mock_qpu ''a'' 27 0 True)))
   \<and> 0 \<le> cost (mock_qpu ''a'' 27 0 True) bell_circuit
   \<and> calculate_figure_of_merit (mock_qpu ''a'' 27 0 True) bell_circuit workload_only_weights = 0"
  by (simp add: new_OptimizationWeights_def isclose_def workload_only_weights_def mock_qpu_def
      calculate_figure_of_merit_def normalize_workload_def Let_def)

text \<open>
  Claim C3, amended. For weights that the constructor of \<open>OptimizationWeights\<close> accepts,
  a resource whose gate and readout fidelities lie in [0, 1] and whose cost is not
  negative, the figure of merit is the weighted sum of the normalized cost, one minus the
  fidelity and the normalized workload; it lies between 0 and the sum of the three
  weights, both included. That sum is at most 1000000 / 999999, and the figure of merit
  is at most 1 whenever the sum is at most 1. No bound is strict: the normalized cost is
  only known to lie in [0, 1].
\<close>

theorem figure_of_merit_bounds:
  assumes "new_OptimizationWeights cw ew ww = Inr w"
    and "list_all (\<lambda>f. 0 \<le> f \<and> f \<le> 1) (map snd (gate_fidelities q))"
    and "list_all (\<lambda>f. 0 \<le> f \<and> f \<le> 1) (map snd (readout_fidelities q))"
    and "0 \<le> calculate_cost q c"
  shows "calculate_figure_of_merit q c w =
           cost_weight w * normalize_cost (calculate_cost q c)
           + error_weight w * (1 - calculate_fidelity q c)
           + workload_weight w * normalize_workload (workload q)
         \<and> 0 \<le> calculate_figure_of_merit q c w
         \<and> calculate_figure_of_merit q c w \<le> cw + ew + ww
         \<and> cw + ew + ww \<le> 1000000 / 999999
         \<and> (cw + ew + ww \<le> 1 \<longrightarrow> calculate_figure_of_merit q c w \<le> 1)"
proof -
  from assms(1) have range: "0 \<le> cw" "0 \<le> ew" "0 \<le> ww"
    and w: "w = \<lparr>cost_weight = cw, error_weight = ew, workload_weight = ww\<rparr>"
    and close: "isclose (cw + ew + ww) 1 (1 / 10 ^ 6)"
    by (auto simp: new_OptimizationWeights_def Let_def split: if_splits)
  have total: "cw + ew + ww \<le> 1000000 / 999999"
    using close range by (auto simp: isclose_def abs_if split: if_splits)
  have g: "\<forall>(k, f)\<in>set (gate_fidelities q). 0 \<le> f \<and> f \<le> 1"
    using assms(2) by (auto simp: list_all_iff)
  have r: "\<forall>(k, f)\<in>set (readout_fidelities q). 0 \<le> f \<and> f \<le> 1"
    using assms(3) by (auto simp: list_all_iff)
  let ?G = "fidelity_loop (gate_fidelities q) (gate_counts c) 1"
  let ?R = "fidelity_loop (readout_fidelities q) (measurements c) 1"
  have G: "0 \<le> ?G" "?G \<le> 1" using fidelity_loop_bounds [OF g, of 1] by simp_all
  have R: "0 \<le> ?R" "?R \<le> 1" using fidelity_loop_bounds [OF r, of 1] by simp_all
  have "0 \<le> ?G * ?R" "?G * ?R \<le> 1" using G R by (simp_all add: mult_le_one)
  then have f: "0 \<le> calculate_fidelity q c" "calculate_fidelity q c \<le> 1"
    by (simp_all add: calculate_fidelity_def Let_def)
  define a where "a = normalize_cost (calculate_cost q c)"
  define b where "b = 1 - calculate_fidelity q c"
  define d where "d = normalize_workload (workload q)"
  have a: "0 \<le> a" "a \<le> 1"
    using normalize_cost_bounds [of "calculate_cost q c"] by (simp_all add: a_def)
  have b: "0 \<le> b" "b \<le> 1" using f by (simp_all add: b_def)
  have d: "0 \<le> d" "d \<le> 1"
    using normalize_workload_bounds [of "workload q"] by (simp_all add: d_def)
  define p1 where "p1 = cw * a"
  define p2 where "p2 = ew * b"
  define p3 where "p3 = ww * d"
  have eq: "calculate_figure_of_merit q c w = p1 + p2 + p3"
    by (simp add: calculate_figure_of_merit_def Let_def w a_def b_def d_def p1_def p2_def p3_def)
  have t1: "0 \<le> p1" "p1 \<le> cw" unfolding p1_def using range(1) a by (simp_all add: mult_left_le)
  have t2: "0 \<le> p2" "p2 \<le> ew" unfolding p2_def using range(2) b by (simp_all add: mult_left_le)
  have t3: "0 \<le> p3" "p3 \<le> ww" unfolding p3_def using range(3) d by (simp_all add: mult_left_le)
  have formula: "calculate_figure_of_merit q c w =
           cost_weight w * normalize_cost (calculate_cost q c)
           + error_weight w * (1 - calculate_fidelity q c)
           + workload_weight w * normalize_workload (workload q)"
    by (simp add: calculate_figure_of_merit_def Let_def)
  have lo: "0 \<le> calculate_figure_of_merit q c w"
    unfolding eq using t1 t2 t3 by linarith
  have hi: "calculate_figure_of_merit q c w \<le> cw + ew + ww"
    unfolding eq using t1 t2 t3 by linarith
  from formula lo hi total show ?thesis by auto
qed

theorem figure_of_merit_bounds_witness:
  "new_OptimizationWeights 0.33 0.33 0.34 = Inr default_weights
   \<and> 0 \<le> calculate_figure_of_merit (mock_qpu ''a'' 27 15 True) bell_circuit default_weights
   \<and> calculate_figure_of_merit (mock_qpu ''a'' 27 15 True) bell_circuit default_weights \<le> 1
   \<and> new_OptimizationWeights 0 (1 / 10 ^ 6) 1
       = Inr \<lparr>cost_weight = 0, error_weight = 1 / 10 ^ 6, workload_weight = 1\<rparr>
   \<and> calculate_figure_of_merit (mock_qpu ''a'' 27 100 True) bell_circuit
        \<lparr>cost_weight = 0, error_weight = 1 / 10 ^ 6, workload_weight = 1\<rparr>
       = 1 + 9375 / 10 ^ 10
   \<and> calculate_figure_of_merit (mock_qpu ''a'' 27 100 True) bell_circuit
        \<lparr>cost_weight = 0, error_weight = 1 / 10 ^ 6, workload_weight = 1\<rparr>
       \<le> 0 + 1 / 10 ^ 6 + 1"
proof -
  have w1: "new_OptimizationWeights 0.33 0.33 0.34 = Inr default_weights"
    by (simp add: new_OptimizationWeights_def isclose_def default_weights_def)
  have w2: "new_OptimizationWeights 0 (1 / 10 ^ 6) 1
            = Inr \<lparr>cost_weight = 0, error_weight = 1 / 10 ^ 6, workload_weight = 1\<rparr>"
    by (simp add: new_OptimizationWeights_def isclose_def)
  have g: "list_all (\<lambda>f. 0 \<le> f \<and> f \<le> 1) (map snd (gate_fidelities (mock_qpu ''a'' 27 n True)))"
    for n by (simp add: mock_qpu_def)
  have r: "list_all (\<lambda>f. 0 \<le> f \<and> f \<le> 1) (map snd (readout_fidelities (mock_qpu ''a'' 27 n True)))"
    for n by (simp add: mock_qpu_def)
  have c: "0 \<le> calculate_cost (mock_qpu ''a'' 27 n True) bell_circuit" for n
    by (simp add: calculate_cost_def mock_qpu_def)
  have v: "calculate_figure_of_merit (mock_qpu ''a'' 27 100 True) bell_circuit
        \<lparr>cost_weight = 0, error_weight = 1 / 10 ^ 6, workload_weight = 1\<rparr>
       = 1 + 9375 / 10 ^ 10"
    by (simp add: calculate_figure_of_merit_def calculate_fidelity_def normalize_workload_def
        mock_qpu_def bell_circuit_def Let_def)
  note d = figure_of_merit_bounds [OF w1 g [of 15] r [of 15] c [of 15]]
  note t = figure_of_merit_bounds [OF w2 g [of 100] r [of 100] c [of 100]]
  from d have lo: "0 \<le> calculate_figure_of_merit (mock_qpu ''a'' 27 15 True) bell_circuit
                      default_weights"
    by blast
  from d have "0.33 + 0.33 + 0.34 \<le> (1 :: real) \<longrightarrow>
      calculate_figure_of_merit (mock_qpu ''a'' 27 15 True) bell_circuit default_weights \<le> 1"
    by blast
  then have hi: "calculate_figure_of_merit (mock_qpu ''a'' 27 15 True) bell_circuit
                   default_weights \<le> 1"
    by simp
  from t have sum: "calculate_figure_of_merit (mock_qpu ''a'' 27 100 True) bell_circuit
        \<lparr>cost_weight = 0, error_weight = 1 / 10 ^ 6, workload_weight = 1\<rparr>
       \<le> 0 + 1 / 10 ^ 6 + 1"
    by blast
  from w1 lo hi w2 v sum show ?thesis by blast
qed

section \<open>Properties of the fidelity\<close>

lemma fidelity_loop_acc: "fidelity_loop table items acc = acc * fidelity_loop table items 1"
proof (induction items arbitrary: acc)
  case Nil
  show ?case by simp
next
  case (Cons it items)
  obtain k n where it: "it = (k, n)" by (cases it)
  show ?case
  proof (cases "map_of table k")
    case None
    with Cons.IH [of acc] it show ?thesis by simp
  next
    case (Some f)
    have "fidelity_loop table (it # items) acc = fidelity_loop table items (acc * f ^ n)"
      using Some it by simp
    also have "\<dots> = (acc * f ^ n) * fidelity_loop table items 1"
      by (rule Cons.IH)
    also have "\<dots> = acc * (f ^ n * fidelity_loop table items 1)"
      by simp
    also have "f ^ n * fidelity_loop table items 1 = fidelity_loop table items (1 * f ^ n)"
      using Cons.IH [of "1 * f ^ n"] by simp
    also have "\<dots> = fidelity_loop table (it # items) 1"
      using Some it by simp
    finally show ?thesis .
  qed
qed

lemma fidelity_loop_spec_product:
  "distinct (map fst counts) \<Longrightarrow> fidelity_loop table counts 1 = spec_product table counts"
proof (induction counts)
  case Nil
  show ?case by (simp add: spec_product_def)
next
  case (Cons it counts)
  obtain k n where it: "it = (k, n)" by (cases it)
  from Cons.prems it have fresh: "k \<notin> fst ` set counts" and d: "distinct (map fst counts)"
    by simp_all
  let ?A = "fst ` set counts \<inter> fst ` set table"
  have same: "(\<Prod>j\<in>?A. the (map_of table j) ^ the (map_of (it # counts) j))
              = spec_product table counts"
    unfolding spec_product_def
  proof (rule prod.cong)
    fix j assume "j \<in> ?A"
    with fresh have "j \<noteq> k" by auto
    then show "the (map_of table j) ^ the (map_of (it # counts) j)
               = the (map_of table j) ^ the (map_of counts j)"
      using it by simp
  qed simp
  show ?case
  proof (cases "map_of table k")
    case None
    then have "k \<notin> fst ` set table" by (simp add: map_of_eq_None_iff)
    then have "fst ` set (it # counts) \<inter> fst ` set table = ?A"
      using it by auto
    then have "spec_product table (it # counts) = spec_product table counts"
      using same by (simp add: spec_product_def)
    moreover have "fidelity_loop table (it # counts) 1 = fidelity_loop table counts 1"
      using None it by simp
    ultimately show ?thesis using Cons.IH [OF d] by simp
  next
    case (Some f)
    then have "k \<in> fst ` set table"
      by (metis map_of_eq_None_iff option.distinct(1))
    then have split: "fst ` set (it # counts) \<inter> fst ` set table = insert k ?A"
      using it by auto
    have "k \<notin> ?A" using fresh by simp
    moreover have "finite ?A" by simp
    ultimately have "spec_product table (it # counts)
        = the (map_of table k) ^ the (map_of (it # counts) k)
          * (\<Prod>j\<in>?A. the (map_of table j) ^ the (map_of (it # counts) j))"
      unfolding spec_product_def split by (rule prod.insert [rotated])
    also have "\<dots> = f ^ n * spec_product table counts"
      using same Some it by simp
    finally have sp: "spec_product table (it # counts) = f ^ n * spec_product table counts" .
    have "fidelity_loop table (it # counts) 1 = fidelity_loop table counts (1 * f ^ n)"
      using Some it by simp
    also have "\<dots> = f ^ n * fidelity_loop table counts 1"
      using fidelity_loop_acc [of table counts "1 * f ^ n"] by simp
    finally show ?thesis using sp Cons.IH [OF d] by simp
  qed
qed

text \<open>
  Claim C4, as stated, fails: for a workload with measurements but an empty gate-count
  mapping the code returns 1.0 before looking at the readout fidelities, while the
  product of the claim is 1/2.
\<close>

theorem calculate_fidelity_product_counterexample:
  "distinct (map fst (gate_counts measure_only_circuit))
   \<and> distinct (map fst (measurements measure_only_circuit))
   \<and> calculate_fidelity (mock_qpu ''a'' 27 0 True) measure_only_circuit = 1
   \<and> spec_fidelity (mock_qpu ''a'' 27 0 True) measure_only_circuit = 1 / 2"
  by (simp add: measure_only_circuit_def mock_qpu_def calculate_fidelity_def spec_fidelity_def
      spec_product_def)

text \<open>
  Claim C4, amended. The fidelity is 1.0 when the workload's gate-count mapping is empty,
  whatever its measurements; otherwise it is the product over the gate kinds present in
  both the gate-count mapping and the gate-fidelity table of \<open>gate_fidelity[kind] ^ count\<close>,
  times the product over the measured qubits present in the readout table of
  \<open>readout_fidelity[qubit] ^ measurement_count\<close>.
\<close>

theorem calculate_fidelity_product:
  assumes "distinct (map fst (gate_counts circuit))"
    and "distinct (map fst (measurements circuit))"
  shows "calculate_fidelity qpu circuit =
           (if gate_counts circuit = [] then 1 else spec_fidelity qpu circuit)"
  using assms
  by (simp add: calculate_fidelity_def spec_fidelity_def fidelity_loop_spec_product Let_def)

theorem calculate_fidelity_product_witness:
  "calculate_fidelity (mock_qpu ''a'' 27 0 True) bell_circuit = 1 / 16"
  using calculate_fidelity_product [of bell_circuit "mock_qpu ''a'' 27 0 True"]
  by (simp add: bell_circuit_def mock_qpu_def spec_fidelity_def spec_product_def)

section \<open>Properties of the weights\<close>

text \<open>
  Claim C7, as stated, fails when the tolerance is read as an absolute one: the weights
  0.5, 0.5 and 0.0000010000005 are accepted although their sum differs from 1.0 by more
  than 1e-6. The check is relative to the larger of the sum and 1.0.
\<close>

theorem new_OptimizationWeights_tolerance_counterexample:
  "new_OptimizationWeights 0.5 0.5 0.0000010000005
     = Inr \<lparr>cost_weight = 0.5, error_weight = 0.5, workload_weight = 0.0000010000005\<rparr>
   \<and> \<not> \<bar>0.5 + 0.5 + 0.0000010000005 - 1\<bar> \<le> (0.000001 :: real)"
  by (simp add: new_OptimizationWeights_def isclose_def)

text \<open>
  Claim C7, amended. For weights each in [0, 1], construction succeeds exactly when the
  sum s of the weights satisfies \<open>|s - 1| \<le> 1e-6 * max(|s|, 1)\<close>; the instance then holds
  the three weights as given. Every other sum is rejected with the ValueError "Weights
  must sum to 1.0".
\<close>

theorem new_OptimizationWeights_iff:
  assumes "0 \<le> cw" "cw \<le> 1" "0 \<le> ew" "ew \<le> 1" "0 \<le> ww" "ww \<le> 1"
  shows "new_OptimizationWeights cw ew ww =
           (if \<bar>cw + ew + ww - 1\<bar> \<le> 0.000001 * max \<bar>cw + ew + ww\<bar> 1
            then Inr \<lparr>cost_weight = cw, error_weight = ew, workload_weight = ww\<rparr>
            else Inl (ValueError ''Weights must sum to 1.0''))"
proof -
  define t where "t = cw + ew + ww"
  have "isclose t 1 (1 / 10 ^ 6) \<longleftrightarrow> \<bar>t - 1\<bar> \<le> 0.000001 * max \<bar>t\<bar> 1"
    unfolding isclose_def by (auto simp: max_def abs_if split: if_splits)
  then show ?thesis
    using assms unfolding new_OptimizationWeights_def t_def by (simp add: Let_def)
qed

theorem new_OptimizationWeights_iff_witness:
  "new_OptimizationWeights 0.33 0.33 0.34
     = Inr \<lparr>cost_weight = 0.33, error_weight = 0.33, workload_weight = 0.34\<rparr>
   \<and> new_OptimizationWeights 0.5 0.5 0.5 = Inl (ValueError ''Weights must sum to 1.0'')"
  using new_OptimizationWeights_iff [of "0.33" "0.33" "0.34"]
    new_OptimizationWeights_iff [of "0.5" "0.5" "0.5"]
  by simp

section \<open>Properties of the matching phase\<close>

lemma constraints_loop_all:
  "constraints_loop e q c ks = list_all (\<lambda>k. evaluate k q c (Some e) = Inr True) ks"
  by (induction ks) (auto split: sum.splits)

lemma matching_loop_filter:
  "matching_loop e c ks pool acc = acc @ filter (\<lambda>q. is_feasible e q c ks) pool"
  by (induction pool arbitrary: acc) simp_all

text \<open>
  Claim C1. The matching phase returns the resources of the pool, in pool order, that are
  available, have at least the required number of qubits, and for which every constraint
  evaluates to true without raising. A constraint whose evaluation raises makes that
  resource infeasible and nothing else: the other resources are still decided on their
  own.
\<close>

theorem matching_phase_filter:
  "matching_phase e c ks =
     filter (\<lambda>q. available q \<and> qubits_required c \<le> qubits q
                 \<and> list_all (\<lambda>k. evaluate k q c (Some e) = Inr True) ks)
       (qpus e)"
proof -
  have "is_feasible e q c ks \<longleftrightarrow>
        available q \<and> qubits_required c \<le> qubits q
        \<and> list_all (\<lambda>k. evaluate k q c (Some e) = Inr True) ks" for q
    by (auto simp: is_feasible_def constraints_loop_all)
  then show ?thesis
    by (simp add: matching_phase_def matching_loop_filter)
qed

lemma evaluate_qubits_at_least_50: "evaluate qubits_at_least_50 (mock_qpu i n w a) c g = Inr (50 \<le> n)"
  by (simp add: evaluate_def property_value_def comparison_value_def apply_operator_def
      qubits_at_least_50_def get_nested_property_def qpu_attributes_def mock_qpu_def
      py_contains_def atom_cmp_def)

lemma evaluate_unknown_property: "evaluate unknown_property (mock_qpu i n w a) c g
    = Inl (ValueError ''Property colour not found in object'')"
  by (simp add: evaluate_def property_value_def comparison_value_def apply_operator_def
      unknown_property_def get_nested_property_def qpu_attributes_def mock_qpu_def
      py_contains_def atom_cmp_def)

theorem matching_phase_filter_witness:
  "matching_phase example_engine bell_circuit [qubits_at_least_50] = [mock_qpu ''big'' 127 40 True]
   \<and> matching_phase example_engine bell_circuit [unknown_property] = []
   \<and> matching_phase example_engine bell_circuit []
       = [mock_qpu ''small'' 27 15 True, mock_qpu ''big'' 127 40 True]"
  using matching_phase_filter [of example_engine bell_circuit "[qubits_at_least_50]"]
    matching_phase_filter [of example_engine bell_circuit "[unknown_property]"]
    matching_phase_filter [of example_engine bell_circuit "[]"]
  by (simp add: example_engine_def evaluate_qubits_at_least_50 evaluate_unknown_property) (simp add: mock_qpu_def bell_circuit_def)

section \<open>Properties of the ranking\<close>

lemma optimization_phase_Some:
  "feasible \<noteq> [] \<Longrightarrow> \<exists>r. optimization_phase feasible c w = Inr (Some r)"
proof -
  assume "feasible \<noteq> []"
  then obtain b xs where f: "feasible = b # xs" by (cases feasible) auto
  from optimization_loop_first_min [of xs c w b] obtain r where
    "optimization_loop xs c w (Some b) (Some (calculate_figure_of_merit b c w)) = Some r"
    by blast
  then show ?thesis by (simp add: optimization_phase_def f Let_def)
qed

text \<open>
  Claim C8, as stated, fails: when the request carries an empty figures-of-merit mapping,
  the weights are the valid defaults, yet the ranked list carries the score 0.0 for the
  resource, whose figure of merit under these weights is 0.525375.
\<close>

theorem bind_ranking_counterexample:
  "bind_qpus bell_parser \<lparr>qpus = [mock_qpu ''a'' 27 15 True]\<rparr> empty_ranking_request
     = Inr \<lparr>selected_qpu = mock_qpu ''a'' 27 15 True, figure_of_merit = 0,
            ranked_qpus = Some [\<lparr>ranked_qpu_id = ''a'', ranked_qpu_name = ''a'',
                                 ranked_provider = IBM, ranked_figure_of_merit = 0\<rparr>]\<rparr>
   \<and> new_OptimizationWeights 0.33 0.33 0.34 = Inr default_weights
   \<and> calculate_figure_of_merit (mock_qpu ''a'' 27 15 True)
        (bell_circuit\<lparr>shots := 1024\<rparr>) default_weights = 0.525375"
proof -
  have m: "matching_phase \<lparr>qpus = [mock_qpu ''a'' 27 15 True]\<rparr> (bell_circuit\<lparr>shots := 1024\<rparr>) []
           = [mock_qpu ''a'' 27 15 True]"
    by (simp add: matching_phase_def is_feasible_def mock_qpu_def bell_circuit_def)
  have w: "new_OptimizationWeights 0.33 0.33 0.34 = Inr default_weights"
    by (simp add: new_OptimizationWeights_def isclose_def default_weights_def)
  have b: "bind_qpus bell_parser \<lparr>qpus = [mock_qpu ''a'' 27 15 True]\<rparr> empty_ranking_request
     = Inr \<lparr>selected_qpu = mock_qpu ''a'' 27 15 True, figure_of_merit = 0,
            ranked_qpus = Some [\<lparr>ranked_qpu_id = ''a'', ranked_qpu_name = ''a'',
                                 ranked_provider = IBM, ranked_figure_of_merit = 0\<rparr>]\<rparr>"
    using w m
    by (simp add: bind_qpus_def bell_parser_def empty_ranking_request_def dict_get_default_def
        bind_feasible_def unscored_entry_def Let_def)
       (simp add: mock_qpu_def)
  have f: "calculate_figure_of_merit (mock_qpu ''a'' 27 15 True)
        (bell_circuit\<lparr>shots := 1024\<rparr>) default_weights = 0.525375"
    by (simp add: calculate_figure_of_merit_def calculate_cost_def normalize_cost_def
        calculate_fidelity_def normalize_workload_def mock_qpu_def bell_circuit_def
        default_weights_def Let_def)
  from b w f show ?thesis by blast
qed

text \<open>
  Claim C8, amended. With a non-empty feasible list and ranking requested, the endpoint
  returns a ranked list. When the request's figures-of-merit mapping is not empty, the
  list has exactly one entry per feasible resource, each with that resource's figure of
  merit, sorted ascending by figure of merit, entries of equal score in the order of the
  feasible list. When the mapping is empty, the list has one entry per feasible resource
  in the order of the feasible list, each with the score 0.0.
\<close>

theorem bind_ranking:
  assumes "feasible \<noteq> []"
  shows "\<exists>res es. bind_feasible request_fom True feasible c w = Inr res
           \<and> ranked_qpus res = Some es
           \<and> (if request_fom = [] then es = map unscored_entry feasible
              else mset es = mset (map (scored_entry c w) feasible)
                 \<and> sorted (map ranked_figure_of_merit es)
                 \<and> (\<forall>k. filter (\<lambda>e. ranked_figure_of_merit e = k) es
                        = filter (\<lambda>e. ranked_figure_of_merit e = k)
                            (map (scored_entry c w) feasible)))"
proof -
  from assms obtain first others where f: "feasible = first # others"
    by (cases feasible) auto
  show ?thesis
  proof (cases "request_fom = []")
    case True
    then show ?thesis by (simp add: bind_feasible_def f)
  next
    case False
    from optimization_phase_Some [OF assms, of c w] obtain r where
      r: "optimization_phase feasible c w = Inr (Some r)" by blast
    let ?es = "sort_key ranked_figure_of_merit (map (scored_entry c w) feasible)"
    have 1: "bind_feasible request_fom True feasible c w
             = Inr \<lparr>selected_qpu = r, figure_of_merit = calculate_figure_of_merit r c w,
                    ranked_qpus = Some ?es\<rparr>"
      using False r f by (simp add: bind_feasible_def Let_def)
    have 2: "mset ?es = mset (map (scored_entry c w) feasible)"
      by simp
    have 3: "sorted (map ranked_figure_of_merit ?es)"
      by (rule sorted_sort_key)
    have 4: "filter (\<lambda>e. ranked_figure_of_merit e = k) ?es
             = filter (\<lambda>e. ranked_figure_of_merit e = k) (map (scored_entry c w) feasible)" for k
      by (rule sort_key_stable)
    from 1 2 3 4 False show ?thesis by simp
  qed
qed

theorem bind_ranking_witness:
  "\<exists>res es. bind_feasible [(''cost_weight'', 0), (''error_weight'', 0), (''workload_weight'', 1)]
               True [mock_qpu ''a'' 27 50 True, mock_qpu ''b'' 27 20 True] bell_circuit
               workload_only_weights = Inr res
     \<and> ranked_qpus res = Some es
     \<and> mset es = mset (map (scored_entry bell_circuit workload_only_weights)
                         [mock_qpu ''a'' 27 50 True, mock_qpu ''b'' 27 20 True])
     \<and> sorted (map ranked_figure_of_merit es)"
  using bind_ranking [of "[mock_qpu ''a'' 27 50 True, mock_qpu ''b'' 27 20 True]"
      "[(''cost_weight'', 0), (''error_weight'', 0), (''workload_weight'', 1)]"
      bell_circuit workload_only_weights]
  by auto

section \<open>Properties of the expression evaluator\<close>

lemmas builtin_eval = py_strip_def isspace_def number_strip_def c_isspace_def py_contains_def
  py_startswith_def py_split.simps
  py_int_def py_float_def sign_prefix_def digitpart_def isdigit_def digit_value_def
  float_number_def float_exponent_def literal_value_def num_arith_def
  evaluate_expression.simps arithmetic_stages.simps

lemma evaluate_expression_no_reference:
  "\<not> property_reference e q c g \<Longrightarrow>
   evaluate_expression e q c g = arithmetic_stages [Mul, Div, Add, Sub] e q c g"
  by (subst evaluate_expression.simps) (auto simp: property_reference_def)

lemma py_split_not_contains: "\<not> py_contains sep s \<Longrightarrow> py_split sep s = [s]"
  unfolding py_contains_def by (intro py_split_None) blast

lemma arithmetic_stage_unfold:
  "arithmetic_stages (op # ops) e q c g =
     (case py_split (token op) e of
        [l, r] \<Rightarrow> combine_split op l r q c g
      | _ \<Rightarrow> arithmetic_stages ops e q c g)"
proof (cases "py_contains (token op) e")
  case True
  then show ?thesis
    by (subst arithmetic_stages.simps) (simp add: combine_split_def split: list.splits)
next
  case False
  then have "py_split (token op) e = [e]"
    by (rule py_split_not_contains)
  with False show ?thesis
    by (subst arithmetic_stages.simps) simp
qed

lemma arithmetic_stage_split:
  "py_split (token op) e = [l, r] \<Longrightarrow>
   arithmetic_stages (op # ops) e q c g = combine_split op l r q c g"
  by (simp add: arithmetic_stage_unfold)

lemma arithmetic_stage_skip:
  "length (py_split (token op) e) \<noteq> 2 \<Longrightarrow>
   arithmetic_stages (op # ops) e q c g = arithmetic_stages ops e q c g"
  by (auto simp: arithmetic_stage_unfold split: list.splits)

lemma arithmetic_stages_skip:
  "length (py_split (token op) e) \<noteq> 2 \<Longrightarrow>
   arithmetic_stages (ops1 @ op # ops2) e q c g = arithmetic_stages (ops1 @ ops2) e q c g"
proof (induction ops1)
  case Nil
  then show ?case by (simp add: arithmetic_stage_skip)
next
  case (Cons o1 ops1)
  then show ?case by (simp add: arithmetic_stage_unfold split: list.splits)
qed

lemma arithmetic_stages_none:
  "\<forall>op\<in>set ops. \<not> py_contains (token op) e \<Longrightarrow>
   arithmetic_stages ops e q c g = literal_value e"
proof (induction ops)
  case Nil
  show ?case by (simp add: arithmetic_stages.simps)
next
  case (Cons op ops)
  then have "py_split (token op) e = [e]"
    by (simp add: py_split_not_contains)
  with Cons show ?case by (simp add: arithmetic_stage_unfold)
qed

text \<open>
  Claim C5, as stated, fails: the expression \<open>2 + 3 * 4\<close> has one \<open>" + "\<close> and one
  \<open>" * "\<close>; the evaluator returns 20.0, the product of \<open>2 + 3\<close> and 4, whereas splitting
  on \<open>" + "\<close> first would give 14.0.
\<close>

theorem addition_splits_first_counterexample:
  "py_split '' + '' ''2 + 3 * 4'' = [''2'', ''3 * 4'']
   \<and> py_split '' * '' ''2 + 3 * 4'' = [''2 + 3'', ''4'']
   \<and> evaluate_expression ''2 + 3 * 4'' None None None = Inr (VFloat 20)
   \<and> combine_split Add ''2'' ''3 * 4'' None None None = Inr (VFloat 14)"
  by (simp add: combine_split_def builtin_eval)

text \<open>
  Claim C5, amended. For an expression \<open>a + b * c\<close> whose only \<open>" * "\<close> is the one shown,
  and which does not take a property branch, the evaluator splits on \<open>" * "\<close> first: it
  evaluates \<open>a + b\<close> and \<open>c\<close> as the two sub-expressions and combines them with
  multiplication.
\<close>

theorem multiplication_splits_first:
  assumes "py_split '' * '' (a @ '' + '' @ b @ '' * '' @ c) = [a @ '' + '' @ b, c]"
    and "\<not> property_reference (a @ '' + '' @ b @ '' * '' @ c) qpu circuit engine"
  shows "evaluate_expression (a @ '' + '' @ b @ '' * '' @ c) qpu circuit engine
         = combine_split Mul (a @ '' + '' @ b) c qpu circuit engine"
proof -
  let ?e = "a @ '' + '' @ b @ '' * '' @ c"
  have "evaluate_expression ?e qpu circuit engine
        = arithmetic_stages [Mul, Div, Add, Sub] ?e qpu circuit engine"
    using assms(2) by (rule evaluate_expression_no_reference)
  also have "\<dots> = combine_split Mul (a @ '' + '' @ b) c qpu circuit engine"
    using assms(1) by (intro arithmetic_stage_split) simp
  finally show ?thesis .
qed

theorem multiplication_splits_first_witness:
  "evaluate_expression ''2 + 3 * 4'' None None None
     = combine_split Mul ''2 + 3'' ''4'' None None None
   \<and> combine_split Mul ''2 + 3'' ''4'' None None None = Inr (VFloat 20)"
proof -
  have s: "py_split '' * '' (''2'' @ '' + '' @ ''3'' @ '' * '' @ ''4'')
           = [''2'' @ '' + '' @ ''3'', ''4'']"
    by (simp add: py_split.simps)
  have p: "\<not> property_reference (''2'' @ '' + '' @ ''3'' @ '' * '' @ ''4'') None None None"
    by (simp add: property_reference_def)
  have v: "combine_split Mul ''2 + 3'' ''4'' None None None = Inr (VFloat 20)"
    by (simp add: combine_split_def builtin_eval)
  from multiplication_splits_first [OF s p] v show ?thesis by simp
qed

subsection \<open>Strings that are not numbers\<close>

lemma scan_digits_chars:
  "scan_digits acc n s = (v, k, rest) \<Longrightarrow> c \<in> set s \<Longrightarrow> number_char c \<or> c \<in> set rest"
  by (induction acc n s rule: scan_digits.induct)
     (auto simp: number_char_def split: if_splits)

lemma digitpart_chars:
  "digitpart s = Some (v, k, rest) \<Longrightarrow> c \<in> set s \<Longrightarrow> number_char c \<or> c \<in> set rest"
  by (cases s) (auto simp: digitpart_def number_char_def split: if_splits dest: scan_digits_chars)

lemma sign_prefix_chars:
  "sign_prefix s = (neg, body) \<Longrightarrow> c \<in> set s \<Longrightarrow> number_char c \<or> c \<in> set body"
  by (cases s) (auto simp: sign_prefix_def number_char_def split: if_splits)

lemma float_exponent_chars:
  assumes "float_exponent m s = Some x" and "c \<in> set s"
  shows "number_char c"
proof (cases s)
  case Nil
  with assms show ?thesis by simp
next
  case (Cons d ds)
  with assms(1) have d: "d = CHR ''e'' \<or> d = CHR ''E''"
    by (auto simp: float_exponent_def split: if_splits)
  obtain neg body where sp: "sign_prefix ds = (neg, body)" by (cases "sign_prefix ds")
  with assms(1) Cons d obtain e n where dp: "digitpart body = Some (e, n, [])"
    by (auto simp: float_exponent_def split: option.splits list.splits if_splits)
  show ?thesis
  proof (cases "c = d")
    case True
    with d show ?thesis by (auto simp: number_char_def)
  next
    case False
    with assms(2) Cons have "c \<in> set ds" by simp
    from sign_prefix_chars [OF sp this] digitpart_chars [OF dp] show ?thesis by auto
  qed
qed

lemma float_number_chars:
  assumes "float_number s = Some x" and "c \<in> set s"
  shows "number_char c"
proof (cases "digitpart s")
  case None
  with assms(1) obtain cs fp k rest where s: "s = CHR ''.'' # cs"
    and dp: "digitpart cs = Some (fp, k, rest)"
    and ex: "float_exponent (real fp / 10 ^ k) rest = Some x"
    by (auto simp: float_number_def split: list.splits if_splits option.splits)
  show ?thesis
  proof (cases "c = CHR ''.''")
    case True
    then show ?thesis by (simp add: number_char_def)
  next
    case False
    with assms(2) s have "c \<in> set cs" by simp
    from digitpart_chars [OF dp this] float_exponent_chars [OF ex] show ?thesis by auto
  qed
next
  case (Some p)
  obtain ip n rest where p: "p = (ip, n, rest)" by (cases p)
  note dp = Some [unfolded p]
  from digitpart_chars [OF dp assms(2)] consider "number_char c" | "c \<in> set rest" by blast
  then show ?thesis
  proof cases
    case 1
    then show ?thesis .
  next
    case 2
    then obtain d ds where rest: "rest = d # ds" by (cases rest) auto
    show ?thesis
    proof (cases "d = CHR ''.''")
      case False
      with assms(1) dp rest have "float_exponent (real ip) rest = Some x"
        by (simp add: float_number_def)
      from float_exponent_chars [OF this 2] show ?thesis .
    next
      case True
      show ?thesis
      proof (cases "c \<in> set ds")
        case False
        with 2 rest True show ?thesis by (simp add: number_char_def)
      next
        case inds: True
        show ?thesis
        proof (cases "digitpart ds")
          case None
          with assms(1) dp rest True have "float_exponent (real ip) ds = Some x"
            by (simp add: float_number_def)
          from float_exponent_chars [OF this inds] show ?thesis .
        next
          case (Some p')
          obtain fp k rest' where p': "p' = (fp, k, rest')" by (cases p')
          note dp' = Some [unfolded p']
          from assms(1) dp rest True dp'
          have "float_exponent (real ip + real fp / 10 ^ k) rest' = Some x"
            by (simp add: float_number_def)
          from digitpart_chars [OF dp' inds] float_exponent_chars [OF this]
          show ?thesis by auto
        qed
      qed
    qed
  qed
qed

lemma py_float_chars:
  assumes "py_float s = Some x" and "c \<in> set (number_strip s)"
  shows "number_char c"
proof -
  obtain neg body where sp: "sign_prefix (number_strip s) = (neg, body)"
    by (cases "sign_prefix (number_strip s)")
  with assms(1) obtain y where "float_number body = Some y"
    by (auto simp: py_float_def split: option.splits)
  from sign_prefix_chars [OF sp assms(2)] float_number_chars [OF this] show ?thesis by auto
qed

lemma py_int_chars:
  assumes "py_int s = Some i" and "c \<in> set (number_strip s)"
  shows "number_char c"
proof -
  obtain neg body where sp: "sign_prefix (number_strip s) = (neg, body)"
    by (cases "sign_prefix (number_strip s)")
  with assms(1) obtain v n where dp: "digitpart body = Some (v, n, [])"
    by (auto simp: py_int_def split: option.splits list.splits)
  from sign_prefix_chars [OF sp assms(2)] digitpart_chars [OF dp] show ?thesis by auto
qed

lemma literal_value_not_number:
  assumes "c \<in> set (number_strip e)" and "\<not> number_char c"
  shows "literal_value e = Inr (VStr e)"
proof -
  have "py_int e = None"
    using py_int_chars [of e _ c] assms by (cases "py_int e") auto
  moreover have "py_float e = None"
    using py_float_chars [of e _ c] assms by (cases "py_float e") auto
  ultimately show ?thesis by (simp add: literal_value_def)
qed

subsection \<open>What the number parsers keep\<close>

lemma dropWhile_keeps:
  "\<not> P p \<Longrightarrow> \<exists>u'. dropWhile P (u @ p # rest) = u' @ p # rest"
proof (induction u)
  case Nil
  then have "dropWhile P ([] @ p # rest) = [] @ p # rest" by simp
  then show ?case by blast
next
  case (Cons x u)
  from Cons obtain u' where u': "dropWhile P (u @ p # rest) = u' @ p # rest" by blast
  show ?case
  proof (cases "P x")
    case True
    with u' have "dropWhile P ((x # u) @ p # rest) = u' @ p # rest" by simp
    then show ?thesis by blast
  next
    case False
    then have "dropWhile P ((x # u) @ p # rest) = (x # u) @ p # rest" by simp
    then show ?thesis by blast
  qed
qed

lemma number_strip_keeps:
  assumes "\<not> c_isspace p" and "\<not> c_isspace q"
  shows "\<exists>u' v'. number_strip (u @ p # m @ q # v) = u' @ p # m @ q # v'"
proof -
  from dropWhile_keeps [of c_isspace p u "m @ q # v"] assms(1) obtain u' where
    1: "dropWhile c_isspace (u @ p # m @ q # v) = u' @ p # m @ q # v" by blast
  have 2: "rev (u' @ p # m @ q # v) = rev v @ q # rev (u' @ p # m)" by simp
  from dropWhile_keeps [of c_isspace q "rev v" "rev (u' @ p # m)"] assms(2) obtain w where
    3: "dropWhile c_isspace (rev v @ q # rev (u' @ p # m)) = w @ q # rev (u' @ p # m)" by blast
  have "number_strip (u @ p # m @ q # v) = u' @ p # m @ q # rev w"
    unfolding number_strip_def 1 2 3 by simp
  then show ?thesis by blast
qed

lemma nonspace_in_number_strip:
  assumes "\<not> c_isspace p"
  shows "p \<in> set (number_strip (p # s))"
proof -
  have 1: "dropWhile c_isspace (p # s) = p # s" using assms by simp
  from dropWhile_keeps [of c_isspace p "rev s" "[]"] assms obtain w where
    "dropWhile c_isspace (rev s @ [p]) = w @ [p]" by auto
  then have "number_strip (p # s) = p # rev w"
    unfolding number_strip_def 1 by simp
  then show ?thesis by simp
qed

subsection \<open>Occurrences of a separator\<close>

lemma partition_at_eq: "partition_at sep s = Some (b, a) \<Longrightarrow> s = b @ sep @ a"
proof (induction s arbitrary: b)
  case Nil
  then show ?case by (simp split: if_splits)
next
  case (Cons x xs)
  show ?case
  proof (cases "prefix sep (x # xs)")
    case True
    with Cons.prems have "b = []" "a = drop (length sep) (x # xs)" by simp_all
    moreover from True obtain zs where "x # xs = sep @ zs" by (auto elim: prefixE)
    ultimately show ?thesis by simp
  next
    case False
    with Cons.prems obtain b' where "partition_at sep xs = Some (b', a)" "b = x # b'"
      by (auto split: option.splits)
    with Cons.IH [of b'] show ?thesis by simp
  qed
qed

lemma partition_at_skip:
  "c0 \<notin> set p \<Longrightarrow>
   partition_at (c0 # t) (p @ s) = map_option (\<lambda>(b, a). (p @ b, a)) (partition_at (c0 # t) s)"
proof (induction p)
  case Nil
  show ?case by (cases "partition_at (c0 # t) s") auto
next
  case (Cons x p)
  then have "x \<noteq> c0" and IH: "partition_at (c0 # t) (p @ s)
      = map_option (\<lambda>(b, a). (p @ b, a)) (partition_at (c0 # t) s)" by auto
  then show ?case by (cases "partition_at (c0 # t) s") auto
qed

lemma py_contains_skip:
  "c0 \<notin> set p \<Longrightarrow> py_contains (c0 # t) (p @ s) = py_contains (c0 # t) s"
  by (simp add: py_contains_def partition_at_skip)

lemma token_shape:
  "\<exists>sym. token op = [CHR '' '', sym, CHR '' ''] \<and> \<not> c_isspace sym"
  by (cases op) (simp_all add: c_isspace_def)

lemma repeated_token_not_number:
  assumes "1 < py_count (token op) e"
  shows "literal_value e = Inr (VStr e)"
proof -
  let ?tok = "token op"
  from assms have len: "2 < length (py_split ?tok e)" by (simp add: py_count_def)
  obtain a r1 where p1: "partition_at ?tok e = Some (a, r1)"
  proof (cases "partition_at ?tok e")
    case None
    with len show ?thesis by (simp add: py_split_None)
  next
    case (Some p)
    with that show ?thesis by (cases p) auto
  qed
  with len have len1: "1 < length (py_split ?tok r1)" by (simp add: py_split_Some)
  obtain b d where p2: "partition_at ?tok r1 = Some (b, d)"
  proof (cases "partition_at ?tok r1")
    case None
    with len1 show ?thesis by (simp add: py_split_None)
  next
    case (Some p)
    with that show ?thesis by (cases p) auto
  qed
  from token_shape [of op] obtain sym where tok: "?tok = [CHR '' '', sym, CHR '' '']"
    and sym: "\<not> c_isspace sym" by blast
  have "e = a @ ?tok @ b @ ?tok @ d"
    using partition_at_eq [OF p1] partition_at_eq [OF p2] by simp
  then have e: "e = (a @ [CHR '' '']) @ sym # (CHR '' '' # b @ [CHR '' '']) @ sym # (CHR '' '' # d)"
    by (simp add: tok)
  from number_strip_keeps [OF sym sym, of "a @ [CHR '' '']" "CHR '' '' # b @ [CHR '' '']" "CHR '' '' # d"]
  obtain u' v' where
    "number_strip e = u' @ sym # (CHR '' '' # b @ [CHR '' '']) @ sym # v'"
    unfolding e [symmetric] by blast
  then have "CHR '' '' \<in> set (number_strip e)" by simp
  moreover have "\<not> number_char (CHR '' '')" by (simp add: number_char_def isdigit_def)
  ultimately show ?thesis by (rule literal_value_not_number)
qed

text \<open>
  Claim C9. For a name that contains no operator token, the expression \<open>computed.\<close>
  followed by the name, evaluated with the engine, the resource or the workload absent,
  raises nothing: the computed branch is skipped and the expression comes back unchanged
  as a string. So a constraint whose comparison value is such a string, evaluated without
  an engine, compares against that string.
\<close>

theorem computed_without_engine:
  assumes "\<forall>op. \<not> py_contains (token op) nm"
    and "engine = None \<or> qpu = None \<or> circuit = None"
  shows "evaluate_expression (''computed.'' @ nm) qpu circuit engine
           = Inr (VStr (''computed.'' @ nm))
         \<and> comparison_value (k\<lparr>value := VStr (''computed.'' @ nm)\<rparr>) q c None
           = Inr (VStr (''computed.'' @ nm))"
proof -
  let ?e = "''computed.'' @ nm"
  have lit: "literal_value ?e = Inr (VStr ?e)"
  proof (rule literal_value_not_number)
    show "CHR ''c'' \<in> set (number_strip ?e)"
      using nonspace_in_number_strip [of "CHR ''c''" "''omputed.'' @ nm"]
      by (simp add: c_isspace_def)
    show "\<not> number_char (CHR ''c'')"
      by (simp add: number_char_def isdigit_def)
  qed
  have no_token: "\<not> py_contains (token op) ?e" for op
  proof -
    from token_shape [of op] obtain sym where tok: "token op = CHR '' '' # [sym, CHR '' '']"
      by auto
    have "py_contains (token op) ?e = py_contains (token op) nm"
      unfolding tok by (rule py_contains_skip) simp
    with assms(1) show ?thesis by simp
  qed
  have stages: "arithmetic_stages [Mul, Div, Add, Sub] ?e qq cc gg = Inr (VStr ?e)" for qq cc gg
  proof -
    have "arithmetic_stages [Mul, Div, Add, Sub] ?e qq cc gg = literal_value ?e"
      by (intro arithmetic_stages_none ballI no_token)
    with lit show ?thesis by simp
  qed
  have skipped: "evaluate_expression ?e qq cc gg = Inr (VStr ?e)"
    if "gg = None \<or> qq = None \<or> cc = None" for qq cc gg
  proof -
    have "\<not> property_reference ?e qq cc gg"
      using that by (auto simp: property_reference_def py_startswith_def)
    from evaluate_expression_no_reference [OF this] stages [of qq cc gg]
    show ?thesis by (rule trans)
  qed
  have marker: "py_contains ''computed.'' ?e"
    by (simp add: py_contains_def)
  have "comparison_value (k\<lparr>value := VStr ?e\<rparr>) q c None = Inr (VStr ?e)"
    using marker skipped [of None "Some q" "Some c"] by (simp add: comparison_value_def)
  with skipped [OF assms(2)] show ?thesis by simp
qed

theorem computed_without_engine_witness:
  "evaluate_expression ''computed.fidelity'' (Some (mock_qpu ''a'' 27 15 True)) (Some bell_circuit)
     None = Inr (VStr ''computed.fidelity'')
   \<and> comparison_value name_is_marker (mock_qpu ''a'' 27 15 True) bell_circuit None
       = Inr (VStr ''computed.fidelity'')
   \<and> evaluate name_is_marker (mock_qpu ''a'' 27 15 True) bell_circuit None = Inr False"
proof -
  have t: "\<forall>op. \<not> py_contains (token op) ''fidelity''"
  proof
    fix op show "\<not> py_contains (token op) ''fidelity''"
      by (cases op) (simp_all add: py_contains_def)
  qed
  have k: "name_is_marker\<lparr>value := VStr (''computed.'' @ ''fidelity'')\<rparr> = name_is_marker"
    by (simp add: name_is_marker_def)
  from computed_without_engine [OF t, of None "Some (mock_qpu ''a'' 27 15 True)"
      "Some bell_circuit" name_is_marker "mock_qpu ''a'' 27 15 True" bell_circuit]
  have 1: "evaluate_expression ''computed.fidelity'' (Some (mock_qpu ''a'' 27 15 True))
             (Some bell_circuit) None = Inr (VStr ''computed.fidelity'')"
    and 2: "comparison_value name_is_marker (mock_qpu ''a'' 27 15 True) bell_circuit None
             = Inr (VStr ''computed.fidelity'')"
    unfolding k by simp_all
  have "property_value name_is_marker (mock_qpu ''a'' 27 15 True) bell_circuit None
        = Inr (VStr ''a'')"
    by (simp add: property_value_def name_is_marker_def get_nested_property_def
        qpu_attributes_def mock_qpu_def py_contains_def)
  with 2 have 3: "evaluate name_is_marker (mock_qpu ''a'' 27 15 True) bell_circuit None = Inr False"
    by (simp add: evaluate_def apply_operator_def atom_eq_def name_is_marker_def)
  from 1 2 3 show ?thesis by simp
qed

text \<open>
  Claim C10. When an operator token occurs more than once in an expression that starts
  with none of the three property prefixes, the block of that operator does not split the
  expression: the result is that of the remaining blocks, in their order, followed by the
  literal step. If no other operator token occurs, the expression is returned unchanged
  as a string. Occurrences are counted as \<open>split\<close> and \<open>count\<close> find them, from the left
  and without overlap.
\<close>

theorem repeated_operator_skipped:
  assumes "1 < py_count (token op) e"
    and "\<not> py_startswith e ''qpu.''"
    and "\<not> py_startswith e ''circuit.''"
    and "\<not> py_startswith e ''computed.''"
  shows "evaluate_expression e q c g
           = arithmetic_stages (removeAll op [Mul, Div, Add, Sub]) e q c g
         \<and> ((\<forall>op'. op' \<noteq> op \<longrightarrow> \<not> py_contains (token op') e)
              \<longrightarrow> evaluate_expression e q c g = Inr (VStr e))"
proof -
  from assms(1) have len: "length (py_split (token op) e) \<noteq> 2"
    by (simp add: py_count_def)
  have "\<not> property_reference e q c g"
    using assms(2-4) by (simp add: property_reference_def)
  then have start: "evaluate_expression e q c g = arithmetic_stages [Mul, Div, Add, Sub] e q c g"
    by (rule evaluate_expression_no_reference)
  have skip: "arithmetic_stages [Mul, Div, Add, Sub] e q c g
              = arithmetic_stages (removeAll op [Mul, Div, Add, Sub]) e q c g"
  proof (cases op)
    case Mul
    with arithmetic_stages_skip [OF len, of "[]" "[Div, Add, Sub]" q c g] show ?thesis by simp
  next
    case Div
    with arithmetic_stages_skip [OF len, of "[Mul]" "[Add, Sub]" q c g] show ?thesis by simp
  next
    case Add
    with arithmetic_stages_skip [OF len, of "[Mul, Div]" "[Sub]" q c g] show ?thesis by simp
  next
    case Sub
    with arithmetic_stages_skip [OF len, of "[Mul, Div, Add]" "[]" q c g] show ?thesis by simp
  qed
  have alone: "evaluate_expression e q c g = Inr (VStr e)"
    if "\<forall>op'. op' \<noteq> op \<longrightarrow> \<not> py_contains (token op') e"
  proof -
    from that have "\<forall>op'\<in>set (removeAll op [Mul, Div, Add, Sub]). \<not> py_contains (token op') e"
      by auto
    then have "arithmetic_stages (removeAll op [Mul, Div, Add, Sub]) e q c g = literal_value e"
      by (rule arithmetic_stages_none)
    with start skip repeated_token_not_number [OF assms(1)] show ?thesis by simp
  qed
  from start skip alone show ?thesis by simp
qed

theorem repeated_operator_skipped_witness:
  "evaluate_expression ''2 * 3 * 4'' None None None = Inr (VStr ''2 * 3 * 4'')
   \<and> evaluate_expression ''1 - 2 * 3 - 4'' None None None
       = arithmetic_stages [Mul, Div, Add] ''1 - 2 * 3 - 4'' None None None
   \<and> arithmetic_stages [Mul, Div, Add] ''1 - 2 * 3 - 4'' None None None = Inr (VFloat 1)"
proof -
  have c1: "1 < py_count (token Mul) ''2 * 3 * 4''"
    by (simp add: py_count_def py_split.simps)
  have others: "\<forall>op'. op' \<noteq> Mul \<longrightarrow> \<not> py_contains (token op') ''2 * 3 * 4''"
  proof (intro allI impI)
    fix op' :: arith_op assume "op' \<noteq> Mul"
    then show "\<not> py_contains (token op') ''2 * 3 * 4''"
      by (cases op') (simp_all add: py_contains_def)
  qed
  have c2: "1 < py_count (token Sub) ''1 - 2 * 3 - 4''"
    by (simp add: py_count_def py_split.simps)
  have n1: "\<not> py_startswith ''2 * 3 * 4'' ''qpu.''"
    and n2: "\<not> py_startswith ''2 * 3 * 4'' ''circuit.''"
    and n3: "\<not> py_startswith ''2 * 3 * 4'' ''computed.''"
    and m1: "\<not> py_startswith ''1 - 2 * 3 - 4'' ''qpu.''"
    and m2: "\<not> py_startswith ''1 - 2 * 3 - 4'' ''circuit.''"
    and m3: "\<not> py_startswith ''1 - 2 * 3 - 4'' ''computed.''"
    by (simp_all add: py_startswith_def)
  from repeated_operator_skipped [OF c1 n1 n2 n3, of None None None] others
  have 1: "evaluate_expression ''2 * 3 * 4'' None None None = Inr (VStr ''2 * 3 * 4'')"
    by blast
  from repeated_operator_skipped [OF c2 m1 m2 m3, of None None None]
  have 2: "evaluate_expression ''1 - 2 * 3 - 4'' None None None
       = arithmetic_stages [Mul, Div, Add] ''1 - 2 * 3 - 4'' None None None"
    by simp
  have 3: "arithmetic_stages [Mul, Div, Add] ''1 - 2 * 3 - 4'' None None None = Inr (VFloat 1)"
    by (simp add: builtin_eval)
  from 1 2 3 show ?thesis by simp
qed

end
